theory Spec2Isabelle
  imports Main
begin

section \<open>go-gitness: the client core\<close>

text \<open>
  The package is a thin HTTP client. Its own logic lives in one file: client construction
  (\<open>NewClient\<close> and the options), the verb helpers (\<open>Get\<close>, \<open>Post\<close>, ...),
  \<open>checkResponse\<close>, \<open>buildFullURL\<close>, \<open>buildQueryParams\<close> and
  \<open>parsePaginationHeaders\<close>. Everything else it calls is the Go standard library or the
  HTTP library req/v3. Small, fixed library functions (\<open>strconv.Atoi\<close>, \<open>%d\<close> formatting,
  header lookup, the path handling of \<open>net/url\<close>) are modelled here as functions on byte
  strings; library calls whose result depends on the outside world or on a large parser
  (\<open>url.Parse\<close>, \<open>json.Unmarshal\<close>, \<open>http.StatusText\<close>, the HTTP round trip) are fields of
  a record \<open>library\<close> that every function using them takes as its first argument.

  Go strings are byte strings: \<open>string\<close> (a list of 8-bit \<open>char\<close>). Go's \<open>int\<close> is the
  64-bit one of the usual platforms; the package does no arithmetic on it, so it is \<open>int\<close>
  here, with the 64-bit range written out where \<open>strconv.Atoi\<close> checks it.
\<close>

subsection \<open>Decimal text: \<open>fmt.Sprintf("%d", n)\<close> and \<open>strconv.Atoi\<close>\<close>

fun digits_of :: "nat \<Rightarrow> string" where
  "digits_of n =
     (if n < 10 then [''0123456789'' ! n]
      else digits_of (n div 10) @ [''0123456789'' ! (n mod 10)])"

declare digits_of.simps [simp del]

text \<open>\<open>fmt.Sprintf("%d", n)\<close>: a minus sign for a negative number, then the decimal digits.\<close>

definition Sprintf_d :: "int \<Rightarrow> string" where
  "Sprintf_d n = (if n < 0 then CHR ''-'' # digits_of (nat (- n)) else digits_of (nat n))"

definition digit_val :: "char \<Rightarrow> nat option" where
  "digit_val c =
     (let b = (of_char c :: nat) in if 48 \<le> b \<and> b \<le> 57 then Some (b - 48) else None)"

fun parse_digits :: "nat \<Rightarrow> string \<Rightarrow> nat option" where
  "parse_digits n [] = Some n"
| "parse_digits n (c # cs) =
     (case digit_val c of None \<Rightarrow> None | Some d \<Rightarrow> parse_digits (n * 10 + d) cs)"

definition intSize :: nat where
  "intSize = 64"

text \<open>
  \<open>strconv.Atoi\<close>: an optional sign, then one or more decimal digits and nothing else; the
  value must fit the \<open>int\<close> type. The callers only test \<open>err == nil\<close>, so the error is
  \<open>None\<close>.
\<close>

definition Atoi :: "string \<Rightarrow> int option" where
  "Atoi s =
     (case s of
        [] \<Rightarrow> None
      | c # rest \<Rightarrow>
          (let ds = (if c = CHR ''-'' \<or> c = CHR ''+'' then rest else s) in
           if ds = [] then None
           else case parse_digits 0 ds of
                  None \<Rightarrow> None
                | Some n \<Rightarrow>
                    (let v = (if c = CHR ''-'' then - int n else int n) in
                     if - (2 ^ (intSize - 1)) \<le> v \<and> v < 2 ^ (intSize - 1) then Some v
                     else None)))"

subsection \<open>HTTP headers: \<open>http.Header.Get\<close>\<close>

text \<open>
  \<open>http.Header\<close> is \<open>map[string][]string\<close>. \<open>Get\<close> looks the canonical form of the key
  up and returns the first value, or the empty string when there is none. The canonical
  form (\<open>textproto.CanonicalMIMEHeaderKey\<close>) of a key made of header-field bytes has an
  upper-case letter first and after each hyphen and lower-case letters elsewhere; any
  other key is left as it is.
\<close>

type_synonym Header = "string \<rightharpoonup> string list"

definition validHeaderFieldByte :: "char \<Rightarrow> bool" where
  "validHeaderFieldByte c =
     (c \<in> set ''!#$%&*+-.^_`|~0123456789abcdefghijklmnopqrstuvwxyzABCDEFGHIJKLMNOPQRSTUVWXYZ''
      \<or> c = CHR 0x27)"

definition toUpper :: "char \<Rightarrow> char" where
  "toUpper c =
     (case map_of (zip ''abcdefghijklmnopqrstuvwxyz'' ''ABCDEFGHIJKLMNOPQRSTUVWXYZ'') c of
        Some u \<Rightarrow> u | None \<Rightarrow> c)"

definition toLower :: "char \<Rightarrow> char" where
  "toLower c =
     (case map_of (zip ''ABCDEFGHIJKLMNOPQRSTUVWXYZ'' ''abcdefghijklmnopqrstuvwxyz'') c of
        Some l \<Rightarrow> l | None \<Rightarrow> c)"

fun canonical_bytes :: "bool \<Rightarrow> string \<Rightarrow> string" where
  "canonical_bytes upper [] = []"
| "canonical_bytes upper (c # cs) =
     (let c' = (if upper then toUpper c else toLower c)
      in c' # canonical_bytes (c' = CHR ''-'') cs)"

definition CanonicalMIMEHeaderKey :: "string \<Rightarrow> string" where
  "CanonicalMIMEHeaderKey s =
     (if list_all validHeaderFieldByte s then canonical_bytes True s else s)"

definition Header_Get :: "Header \<Rightarrow> string \<Rightarrow> string" where
  "Header_Get h key =
     (case h (CanonicalMIMEHeaderKey key) of
        None \<Rightarrow> []
      | Some [] \<Rightarrow> []
      | Some (v # vs) \<Rightarrow> v)"

subsection \<open>Responses\<close>

text \<open>
  \<open>req.Response\<close>, as far as the package reads it: the status code and headers of the
  embedded \<open>http.Response\<close>, the body bytes (\<open>r.Bytes()\<close>), and the request's method and
  URL (read by \<open>ErrorResponse.Error\<close>). A \<open>req.Response\<close> that the library hands over
  with a nil error carries its \<open>http.Response\<close>.
\<close>

record req_Response =
  StatusCode :: int
  Header :: Header
  Bytes :: string
  Request_Method :: string
  Request_URL :: string

text \<open>
  \<open>Response\<close>: the embedded \<open>*req.Response\<close> (which may be nil) and the five pagination
  fields, each a \<open>*int\<close>.
\<close>

record Response =
  Response :: "req_Response option"
  Page :: "int option"
  PerPage :: "int option"
  NextPage :: "int option"
  Total :: "int option"
  TotalPages :: "int option"

text \<open>The composite literal \<open>&Response{Response: resp}\<close>: every other field is nil.\<close>

definition Response_of :: "req_Response option \<Rightarrow> Response" where
  "Response_of resp =
     \<lparr>Response = resp, Page = None, PerPage = None, NextPage = None, Total = None,
      TotalPages = None\<rparr>"

record ErrorResponse =
  Error_Response :: "req_Response option"
  Message :: string
  Details :: string

subsection \<open>\<open>parsePaginationHeaders\<close>\<close>

text \<open>
  One block of the function: read the header; when it is not empty and \<open>Atoi\<close> accepts
  it, the field becomes a pointer to the value; otherwise the field keeps what it held.
\<close>

definition parse_header_int :: "Header \<Rightarrow> string \<Rightarrow> int option \<Rightarrow> int option" where
  "parse_header_int headers key field =
     (let v = Header_Get headers key in
      if v \<noteq> [] then (case Atoi v of Some val \<Rightarrow> Some val | None \<Rightarrow> field)
      else field)"

definition parsePaginationHeaders :: "Response \<Rightarrow> Response" where
  "parsePaginationHeaders response =
     (case Response response of
        None \<Rightarrow> response
      | Some r \<Rightarrow>
          (let headers = Header r;
               response = response\<lparr>Page := parse_header_int headers ''x-page'' (Page response)\<rparr>;
               response = response\<lparr>PerPage :=
                            parse_header_int headers ''x-per-page'' (PerPage response)\<rparr>;
               response = response\<lparr>NextPage :=
                            parse_header_int headers ''x-next-page'' (NextPage response)\<rparr>;
               response = response\<lparr>Total :=
                            parse_header_int headers ''x-total'' (Total response)\<rparr>;
               response = response\<lparr>TotalPages :=
                            parse_header_int headers ''x-total-pages'' (TotalPages response)\<rparr>
           in response))"

subsection \<open>\<open>ListOptions\<close> and \<open>buildQueryParams\<close>\<close>

record ListOptions =
  opt_Page :: "int option"
  opt_Limit :: "int option"
  opt_Sort :: "string option"
  opt_Order :: "string option"
  opt_Query :: "string option"

text \<open>
  An interface value (\<open>any\<close>: a request body or a result destination) and a
  \<open>context.Context\<close> are opaque to the package, which only forwards them.
\<close>

datatype any = Any string

datatype Context = Context nat

text \<open>
  \<open>req.Request\<close>, as far as the package sets it. \<open>QueryParams\<close> is a \<open>url.Values\<close>
  (\<open>map[string][]string\<close>); \<open>SetQueryParam\<close> replaces the values of the key by the one
  given.
\<close>

record req_Request =
  ctx :: "Context option"
  SuccessResult :: "any option"
  BodyJsonMarshal :: "any option"
  QueryParams :: "string \<rightharpoonup> string list"

definition SetQueryParam :: "string \<Rightarrow> string \<Rightarrow> req_Request \<Rightarrow> req_Request" where
  "SetQueryParam key val req = req\<lparr>QueryParams := (QueryParams req)(key \<mapsto> [val])\<rparr>"

definition buildQueryParams :: "req_Request \<Rightarrow> ListOptions option \<Rightarrow> req_Request" where
  "buildQueryParams req opt =
     (case opt of
        None \<Rightarrow> req
      | Some opt \<Rightarrow>
          (let req = (case opt_Page opt of
                        Some p \<Rightarrow> SetQueryParam ''page'' (Sprintf_d p) req | None \<Rightarrow> req);
               req = (case opt_Limit opt of
                        Some l \<Rightarrow> SetQueryParam ''limit'' (Sprintf_d l) req | None \<Rightarrow> req);
               req = (case opt_Sort opt of
                        Some s \<Rightarrow> SetQueryParam ''sort'' s req | None \<Rightarrow> req);
               req = (case opt_Order opt of
                        Some s \<Rightarrow> SetQueryParam ''order'' s req | None \<Rightarrow> req);
               req = (case opt_Query opt of
                        Some s \<Rightarrow> SetQueryParam ''query'' s req | None \<Rightarrow> req)
           in req))"

subsection \<open>\<open>net/url\<close>: escaping\<close>

text \<open>
  The part of \<open>net/url\<close> that \<open>buildFullURL\<close> runs: \<open>URL.ResolveReference\<close> and
  \<open>URL.String\<close>, with \<open>shouldEscape\<close>, \<open>escape\<close>, \<open>unescape\<close>, \<open>validEncoded\<close>,
  \<open>EscapedPath\<close>, \<open>setPath\<close> and \<open>resolvePath\<close>, which they call.
\<close>

datatype encoding =
  encodePath | encodePathSegment | encodeHost | encodeZone | encodeUserPassword
  | encodeQueryComponent | encodeFragment

definition alphanum :: "char \<Rightarrow> bool" where
  "alphanum c =
     (c \<in> set ''abcdefghijklmnopqrstuvwxyzABCDEFGHIJKLMNOPQRSTUVWXYZ0123456789'')"

text \<open>
  \<open>shouldEscape\<close>, in the order of the Go function: letters and digits are never
  escaped; a host may carry the sub-delimiters and a few more; the marks \<open>- _ . ~\<close> are
  never escaped; for a reserved character the answer depends on the part of the URL;
  everything else is escaped. (\<open>CHR 0x27\<close> is the apostrophe and \<open>CHR 0x22\<close> the double
  quote.)
\<close>

definition shouldEscape :: "char \<Rightarrow> encoding \<Rightarrow> bool" where
  "shouldEscape c mode =
     (if alphanum c then False
      else if (mode = encodeHost \<or> mode = encodeZone)
              \<and> (c \<in> set ''!$&()*+,;=:[]<>'' \<or> c = CHR 0x27 \<or> c = CHR 0x22) then False
      else if c \<in> set ''-_.~'' then False
      else if c \<in> set ''$&+,/:;=?@'' \<and> mode = encodePath then c = CHR ''?''
      else if c \<in> set ''$&+,/:;=?@'' \<and> mode = encodePathSegment then c \<in> set ''/;,?''
      else if c \<in> set ''$&+,/:;=?@'' \<and> mode = encodeUserPassword then c \<in> set ''@/?:''
      else if c \<in> set ''$&+,/:;=?@'' \<and> mode = encodeQueryComponent then True
      else if c \<in> set ''$&+,/:;=?@'' \<and> mode = encodeFragment then False
      else if mode = encodeFragment \<and> c \<in> set ''!()*'' then False
      else True)"

definition upperhex :: "nat \<Rightarrow> char" where
  "upperhex n = ''0123456789ABCDEF'' ! n"

definition escape_byte :: "encoding \<Rightarrow> char \<Rightarrow> string" where
  "escape_byte mode c =
     (if shouldEscape c mode then
        (if c = CHR '' '' \<and> mode = encodeQueryComponent then ''+''
         else [CHR ''%'', upperhex ((of_char c :: nat) div 16),
               upperhex ((of_char c :: nat) mod 16)])
      else [c])"

definition escape :: "string \<Rightarrow> encoding \<Rightarrow> string" where
  "escape s mode = concat (map (escape_byte mode) s)"

definition ishex :: "char \<Rightarrow> bool" where
  "ishex c = (c \<in> set ''0123456789abcdefABCDEF'')"

definition unhex :: "char \<Rightarrow> nat" where
  "unhex c =
     (let b = (of_char c :: nat) in
      if 48 \<le> b \<and> b \<le> 57 then b - 48
      else if 97 \<le> b \<and> b \<le> 102 then b - 97 + 10
      else if 65 \<le> b \<and> b \<le> 70 then b - 65 + 10
      else 0)"

text \<open>
  \<open>unescape\<close> in the modes \<open>encodePath\<close> and \<open>encodeFragment\<close> (the two modes used
  below, which treat their input alike): a \<open>%\<close> must be followed by two hexadecimal
  digits and the three bytes become one; every other byte is kept. \<open>None\<close> is the
  \<open>EscapeError\<close>.
\<close>

fun unescape :: "string \<Rightarrow> string option" where
  "unescape [] = Some []"
| "unescape (c # s) =
     (if c = CHR ''%'' then
        (case s of
           a # b # rest \<Rightarrow>
             (if ishex a \<and> ishex b then
                (case unescape rest of
                   None \<Rightarrow> None
                 | Some t \<Rightarrow> Some (char_of (unhex a * 16 + unhex b) # t))
              else None)
         | _ \<Rightarrow> None)
      else (case unescape s of None \<Rightarrow> None | Some t \<Rightarrow> Some (c # t)))"

definition validEncoded_byte :: "encoding \<Rightarrow> char \<Rightarrow> bool" where
  "validEncoded_byte mode c =
     (if c \<in> set ''!$&()*+,;=:@[]%'' \<or> c = CHR 0x27 then True
      else \<not> shouldEscape c mode)"

definition validEncoded :: "string \<Rightarrow> encoding \<Rightarrow> bool" where
  "validEncoded s mode = list_all (validEncoded_byte mode) s"

subsection \<open>\<open>net/url\<close>: the \<open>URL\<close> type\<close>

record Userinfo =
  username :: string
  password :: string
  passwordSet :: bool

record URL =
  Scheme :: string
  Opaque :: string
  User :: "Userinfo option"
  Host :: string
  Path :: string
  RawPath :: string
  OmitHost :: bool
  ForceQuery :: bool
  RawQuery :: string
  Fragment :: string
  RawFragment :: string

text \<open>The composite literal \<open>&url.URL{Path: path}\<close>: every other field is zero.\<close>

definition URL_of_Path :: "string \<Rightarrow> URL" where
  "URL_of_Path p =
     \<lparr>Scheme = [], Opaque = [], User = None, Host = [], Path = p, RawPath = [],
      OmitHost = False, ForceQuery = False, RawQuery = [], Fragment = [], RawFragment = []\<rparr>"

definition EscapedPath :: "URL \<Rightarrow> string" where
  "EscapedPath u =
     (if RawPath u \<noteq> [] \<and> validEncoded (RawPath u) encodePath
         \<and> unescape (RawPath u) = Some (Path u) then RawPath u
      else if Path u = ''*'' then ''*''
      else escape (Path u) encodePath)"

definition EscapedFragment :: "URL \<Rightarrow> string" where
  "EscapedFragment u =
     (if RawFragment u \<noteq> [] \<and> validEncoded (RawFragment u) encodeFragment
         \<and> unescape (RawFragment u) = Some (Fragment u) then RawFragment u
      else escape (Fragment u) encodeFragment)"

text \<open>\<open>setPath\<close> returns the error of \<open>unescape\<close> (\<open>None\<close>) and then changes nothing.\<close>

definition setPath :: "URL \<Rightarrow> string \<Rightarrow> URL option" where
  "setPath u p =
     (case unescape p of
        None \<Rightarrow> None
      | Some path \<Rightarrow>
          Some (u\<lparr>Path := path,
                  RawPath := (if p = escape path encodePath then [] else p)\<rparr>))"

definition Userinfo_String :: "Userinfo option \<Rightarrow> string" where
  "Userinfo_String ui =
     (case ui of
        None \<Rightarrow> []
      | Some u \<Rightarrow>
          escape (username u) encodeUserPassword
          @ (if passwordSet u then '':'' @ escape (password u) encodeUserPassword else []))"

subsection \<open>\<open>net/url\<close>: \<open>resolvePath\<close> and \<open>ResolveReference\<close>\<close>

text \<open>\<open>base[:strings.LastIndex(base, "/")+1]\<close>: the base up to and with its last slash.\<close>

definition through_last_slash :: "string \<Rightarrow> string" where
  "through_last_slash base = rev (dropWhile (\<lambda>c. c \<noteq> CHR ''/'') (rev base))"

text \<open>
  \<open>str[:strings.LastIndexByte(str, '/')]\<close>: the string before its last slash, \<open>None\<close>
  when it has no slash (the index is \<open>-1\<close>).
\<close>

definition before_last_slash :: "string \<Rightarrow> string option" where
  "before_last_slash str =
     (case dropWhile (\<lambda>c. c \<noteq> CHR ''/'') (rev str) of
        [] \<Rightarrow> None
      | c # r \<Rightarrow> Some (rev r))"

text \<open>
  The body of the loop of \<open>resolvePath\<close> on one element. The state is the builder
  \<open>dst\<close>, which always starts with the slash written before the loop, and the flag
  \<open>first\<close>. A \<open>.\<close> is dropped; a \<open>..\<close> removes the last element written; any other
  element is appended, after a slash unless it is the first.
\<close>

definition resolve_step :: "string \<times> bool \<Rightarrow> string \<Rightarrow> string \<times> bool" where
  "resolve_step st elem =
     (case st of
        (dst, first) \<Rightarrow>
          if elem = ''.'' then (dst, False)
          else if elem = ''..'' then
            (case before_last_slash (tl dst) of
               None \<Rightarrow> (''/'', True)
             | Some str \<Rightarrow> (''/'' @ str, first))
          else ((if first then dst else dst @ ''/'') @ elem, False))"

text \<open>
  The loop \<open>for found { elem, remaining, found = strings.Cut(remaining, "/"); ... }\<close>.
  It returns the final state and the last element cut.
\<close>

function resolve_loop :: "string \<times> bool \<Rightarrow> string \<Rightarrow> (string \<times> bool) \<times> string" where
  "resolve_loop st remaining =
     (case dropWhile (\<lambda>c. c \<noteq> CHR ''/'') remaining of
        [] \<Rightarrow> (resolve_step st (takeWhile (\<lambda>c. c \<noteq> CHR ''/'') remaining),
               takeWhile (\<lambda>c. c \<noteq> CHR ''/'') remaining)
      | c # remaining' \<Rightarrow>
          resolve_loop (resolve_step st (takeWhile (\<lambda>c. c \<noteq> CHR ''/'') remaining)) remaining')"
  by pat_completeness auto
termination
proof (relation "measure (\<lambda>(st, remaining). length remaining)")
  show "wf (measure (\<lambda>(st, remaining). length remaining))"
    by simp
next
  fix st :: "string \<times> bool" and remaining :: string and c :: char and remaining' :: string
  assume cut: "dropWhile (\<lambda>c. c \<noteq> CHR ''/'') remaining = c # remaining'"
  have "length (dropWhile (\<lambda>c. c \<noteq> CHR ''/'') remaining) \<le> length remaining"
    by (rule length_dropWhile_le)
  with cut have "length remaining' < length remaining"
    by simp
  then show "((resolve_step st (takeWhile (\<lambda>c. c \<noteq> CHR ''/'') remaining), remaining'),
              (st, remaining)) \<in> measure (\<lambda>(st, remaining). length remaining)"
    by simp
qed

declare resolve_loop.simps [simp del]

definition resolvePath :: "string \<Rightarrow> string \<Rightarrow> string" where
  "resolvePath base ref =
     (let full = (if ref = [] then base
                  else if hd ref \<noteq> CHR ''/'' then through_last_slash base @ ref
                  else ref)
      in if full = [] then []
         else (case resolve_loop (''/'', True) full of
                 ((dst, first), elem) \<Rightarrow>
                   (let dst = (if elem = ''.'' \<or> elem = ''..'' then dst @ ''/'' else dst)
                    in if length dst > 1 \<and> dst ! 1 = CHR ''/'' then tl dst else dst)))"

text \<open>
  \<open>ResolveReference\<close>. The error of \<open>setPath\<close> is dropped, as in Go; the copy of the
  reference then keeps the path it had.
\<close>

definition setPath_ignore :: "URL \<Rightarrow> string \<Rightarrow> URL" where
  "setPath_ignore u p = (case setPath u p of None \<Rightarrow> u | Some u' \<Rightarrow> u')"

definition ResolveReference :: "URL \<Rightarrow> URL \<Rightarrow> URL" where
  "ResolveReference u ref =
     (let url = ref;
          url = (if Scheme ref = [] then url\<lparr>Scheme := Scheme u\<rparr> else url)
      in if Scheme ref \<noteq> [] \<or> Host ref \<noteq> [] \<or> User ref \<noteq> None then
           setPath_ignore url (resolvePath (EscapedPath ref) [])
         else if Opaque ref \<noteq> [] then
           url\<lparr>User := None, Host := [], Path := []\<rparr>
         else
           (let url = (if Path ref = [] \<and> \<not> ForceQuery ref \<and> RawQuery ref = [] then
                         (let url = url\<lparr>RawQuery := RawQuery u\<rparr>
                          in if Fragment ref = [] then
                               url\<lparr>Fragment := Fragment u, RawFragment := RawFragment u\<rparr>
                             else url)
                       else url)
            in if Path ref = [] \<and> Opaque u \<noteq> [] then
                 url\<lparr>Opaque := Opaque u, User := None, Host := [], Path := []\<rparr>
               else
                 setPath_ignore (url\<lparr>Host := Host u, User := User u\<rparr>)
                   (resolvePath (EscapedPath u) (EscapedPath ref))))"

subsection \<open>\<open>net/url\<close>: \<open>URL.String\<close>\<close>

definition authority_String :: "URL \<Rightarrow> string" where
  "authority_String u =
     (if Scheme u \<noteq> [] \<or> Host u \<noteq> [] \<or> User u \<noteq> None then
        (if OmitHost u \<and> Host u = [] \<and> User u = None then []
         else (if Host u \<noteq> [] \<or> Path u \<noteq> [] \<or> User u \<noteq> None then ''//'' else [])
              @ (if User u \<noteq> None then Userinfo_String (User u) @ ''@'' else [])
              @ (if Host u \<noteq> [] then escape (Host u) encodeHost else []))
      else [])"

definition URL_String :: "URL \<Rightarrow> string" where
  "URL_String u =
     (let buf = (if Scheme u \<noteq> [] then Scheme u @ '':'' else []);
          buf =
            (if Opaque u \<noteq> [] then buf @ Opaque u
             else
               (let buf = buf @ authority_String u;
                    path = EscapedPath u;
                    buf = (if path \<noteq> [] \<and> hd path \<noteq> CHR ''/'' \<and> Host u \<noteq> [] then buf @ ''/''
                           else buf);
                    buf = (if buf = []
                              \<and> CHR '':'' \<in> set (takeWhile (\<lambda>c. c \<noteq> CHR ''/'') path)
                           then buf @ ''./'' else buf)
                in buf @ path));
          buf = (if ForceQuery u \<or> RawQuery u \<noteq> [] then buf @ ''?'' @ RawQuery u else buf);
          buf = (if Fragment u \<noteq> [] then buf @ ''#'' @ EscapedFragment u else buf)
      in buf)"

subsection \<open>The HTTP library (req/v3) and the other library calls\<close>

text \<open>
  \<open>req.Client\<close>, as far as the package configures it. \<open>CommonRetryCount\<close> is \<open>None\<close>
  until \<open>SetCommonRetryCount\<close> is called. \<open>Timeout\<close> is a \<open>time.Duration\<close>, in
  nanoseconds.
\<close>

record req_Client =
  UserAgent :: string
  Timeout :: int
  CommonBearerAuthToken :: string
  CommonContentType :: string
  BaseURL :: string
  DebugLog :: bool
  CommonRetryCount :: "int option"

text \<open>\<open>req.C()\<close>: the library's fresh client, with its defaults.\<close>

definition req_C :: req_Client where
  "req_C =
     \<lparr>UserAgent = ''req/v3 (https://github.com/imroc/req)'', Timeout = 120 * 1000000000,
      CommonBearerAuthToken = [], CommonContentType = [], BaseURL = [], DebugLog = False,
      CommonRetryCount = None\<rparr>"

text \<open>\<open>c.client.R()\<close>: a fresh request.\<close>

definition R :: "req_Client \<Rightarrow> req_Request" where
  "R rc = \<lparr>ctx = None, SuccessResult = None, BodyJsonMarshal = None, QueryParams = Map.empty\<rparr>"

text \<open>
  A JSON value as \<open>json.Unmarshal\<close> stores it in an \<open>any\<close>: nil, \<open>bool\<close>, \<open>float64\<close>
  (kept as the text of the number), \<open>string\<close>, \<open>[]any\<close> or \<open>map[string]any\<close>.
\<close>

datatype json_value =
  JNull | JBool bool | JNumber string | JString string | JArray "json_value list"
  | JObject "(string \<times> json_value) list"

text \<open>
  Go's \<open>error\<close> values: the package's own \<open>*ErrorResponse\<close>, or an error that a
  library call returned.
\<close>

datatype error = LibraryError string | APIError ErrorResponse

text \<open>
  What a request method of the library (\<open>req.Get(url)\<close>, \<open>req.Post(url)\<close>, ...) returns:
  with a non-nil error a response pointer that the caller must not rely on, with a nil
  error a response.
\<close>

datatype round_trip = Failed "req_Response option" error | Delivered req_Response

text \<open>
  The library calls that the model does not compute:
  \<^item> \<open>url_Parse\<close> is \<open>url.Parse\<close>;
  \<^item> \<open>json_Unmarshal\<close> is \<open>json.Unmarshal(data, &m)\<close> for \<open>m\<close> a nil
    \<open>map[string]any\<close>: an error, or the map read (the nil map for \<open>null\<close>, in which
    every lookup misses, is the empty map);
  \<^item> \<open>http_StatusText\<close> is \<open>http.StatusText\<close>;
  \<^item> \<open>req_send\<close> sends a request with a method and a URL through a \<open>req.Client\<close>; it
    returns the library's client, whose own state it may have changed, and the outcome.
\<close>

record library =
  url_Parse :: "string \<Rightarrow> error + URL"
  json_Unmarshal :: "string \<Rightarrow> error + (string \<rightharpoonup> json_value)"
  http_StatusText :: "int \<Rightarrow> string"
  req_send :: "req_Client \<Rightarrow> string \<Rightarrow> string \<Rightarrow> req_Request \<Rightarrow> req_Client \<times> round_trip"

text \<open>
  \<open>r.IsSuccessState()\<close> with the library's default state check, which the package never
  replaces: \<open>code > 199 && code < 300\<close>.
\<close>

definition IsSuccessState :: "req_Response \<Rightarrow> bool" where
  "IsSuccessState r = (199 < StatusCode r \<and> StatusCode r < 300)"

subsection \<open>The client\<close>

definition defaultBaseURL :: string where
  "defaultBaseURL = ''https://gitness.com/''"

definition apiVersionPath :: string where
  "apiVersionPath = ''api/v1''"

definition userAgent :: string where
  "userAgent = ''go-gitness''"

text \<open>
  A \<open>*Client\<close> is an address in a store of clients; allocation appends to the store.
  Every service struct is \<open>{client *Client}\<close>.
\<close>

type_synonym Client_ptr = nat

record Service =
  Service_client :: Client_ptr

record Client =
  client :: req_Client
  baseURL :: string
  token :: string
  Admin :: "Service option"
  Audit :: "Service option"
  Auth :: "Service option"
  Checks :: "Service option"
  CiCache :: "Service option"
  Connectors :: "Service option"
  Gitspaces :: "Service option"
  InfraProviders :: "Service option"
  Pipelines :: "Service option"
  Principals :: "Service option"
  Plugins :: "Service option"
  PullRequests :: "Service option"
  Repositories :: "Service option"
  Resource :: "Service option"
  Secrets :: "Service option"
  Spaces :: "Service option"
  System :: "Service option"
  Templates :: "Service option"
  Upload :: "Service option"
  Users :: "Service option"
  Webhooks :: "Service option"

type_synonym heap = "Client list"

text \<open>
  A \<open>ClientOptionFunc\<close> works on the client through its pointer and returns an error or
  nil; after an error \<open>NewClient\<close> drops the client.
\<close>

type_synonym ClientOptionFunc = "Client \<Rightarrow> error + Client"

definition WithBaseURL :: "library \<Rightarrow> string \<Rightarrow> ClientOptionFunc" where
  "WithBaseURL L baseURL' c =
     (case url_Parse L baseURL' of
        Inl err \<Rightarrow> Inl err
      | Inr u \<Rightarrow> Inr (c\<lparr>baseURL := URL_String u\<rparr>))"

definition WithHTTPClient :: "any option \<Rightarrow> ClientOptionFunc" where
  "WithHTTPClient httpClient c = Inr c"

definition WithTimeout :: "int \<Rightarrow> ClientOptionFunc" where
  "WithTimeout timeout c = Inr (c\<lparr>client := (client c)\<lparr>Timeout := timeout\<rparr>\<rparr>)"

definition WithDebug :: ClientOptionFunc where
  "WithDebug c = Inr (c\<lparr>client := (client c)\<lparr>DebugLog := True\<rparr>\<rparr>)"

definition WithRetry :: "int \<Rightarrow> ClientOptionFunc" where
  "WithRetry retryCount c =
     (if retryCount > 0 then
        Inr (c\<lparr>client := (client c)\<lparr>CommonRetryCount := Some retryCount\<rparr>\<rparr>)
      else Inr c)"

fun apply_options :: "ClientOptionFunc list \<Rightarrow> Client \<Rightarrow> error + Client" where
  "apply_options [] c = Inr c"
| "apply_options (option # options) c =
     (case option c of Inl err \<Rightarrow> Inl err | Inr c' \<Rightarrow> apply_options options c')"

text \<open>
  \<open>NewClient\<close>. The client is allocated at the next free address \<open>length h\<close>; the
  services are created last, each with that address.
\<close>

definition NewClient ::
  "heap \<Rightarrow> string \<Rightarrow> ClientOptionFunc list \<Rightarrow> error + (Client_ptr \<times> heap)" where
  "NewClient h token' options =
     (let reqClient = req_C\<lparr>UserAgent := userAgent, Timeout := 10 * 1000000000,
                             CommonBearerAuthToken := token',
                             CommonContentType := ''application/json''\<rparr>;
          p = length h;
          c = \<lparr>client = reqClient, baseURL = defaultBaseURL, token = token',
               Admin = None, Audit = None, Auth = None, Checks = None, CiCache = None,
               Connectors = None, Gitspaces = None, InfraProviders = None, Pipelines = None,
               Principals = None, Plugins = None, PullRequests = None, Repositories = None,
               Resource = None, Secrets = None, Spaces = None, System = None,
               Templates = None, Upload = None, Users = None, Webhooks = None\<rparr>
      in case apply_options options c of
           Inl err \<Rightarrow> Inl err
         | Inr c \<Rightarrow>
             (let apiURL = baseURL c @ apiVersionPath;
                  c = c\<lparr>client := (client c)\<lparr>BaseURL := apiURL\<rparr>\<rparr>;
                  s = Some \<lparr>Service_client = p\<rparr>;
                  c = c\<lparr>Admin := s, Audit := s, Auth := s, Checks := s, CiCache := s,
                        Connectors := s, Gitspaces := s, InfraProviders := s, Pipelines := s,
                        Principals := s, Plugins := s, PullRequests := s, Repositories := s,
                        Resource := s, Secrets := s, Spaces := s, System := s, Templates := s,
                        Upload := s, Users := s, Webhooks := s\<rparr>
              in Inr (p, h @ [c])))"

subsection \<open>\<open>checkResponse\<close> and \<open>buildFullURL\<close>\<close>

text \<open>
  \<open>checkResponse\<close> returns nil (\<open>None\<close>) or an \<open>*ErrorResponse\<close>. The type assertion
  \<open>errorBody["message"].(string)\<close> holds exactly for a key that is present with a
  string value.
\<close>

definition checkResponse :: "library \<Rightarrow> req_Response \<Rightarrow> ErrorResponse option" where
  "checkResponse L r =
     (if IsSuccessState r then None
      else
        (let errorResponse = \<lparr>Error_Response = Some r, Message = [], Details = []\<rparr>;
             errorResponse =
               (case json_Unmarshal L (Bytes r) of
                  Inl err \<Rightarrow> errorResponse
                | Inr errorBody \<Rightarrow>
                    (let errorResponse =
                           (case errorBody ''message'' of
                              Some (JString message) \<Rightarrow> errorResponse\<lparr>Message := message\<rparr>
                            | _ \<Rightarrow> errorResponse);
                         errorResponse =
                           (case errorBody ''details'' of
                              Some (JString details) \<Rightarrow> errorResponse\<lparr>Details := details\<rparr>
                            | _ \<Rightarrow> errorResponse)
                     in errorResponse));
             errorResponse =
               (if Message errorResponse = [] then
                  errorResponse\<lparr>Message :=
                    ''HTTP '' @ Sprintf_d (StatusCode r) @ '': ''
                    @ http_StatusText L (StatusCode r)\<rparr>
                else errorResponse)
         in Some errorResponse))"

text \<open>
  \<open>buildFullURL\<close> drops the error of \<open>url.Parse\<close>. After an error the parsed URL is nil,
  and \<open>ResolveReference\<close> on it is a nil pointer dereference: the function panics.
\<close>

datatype panic = NilPointerDereference

definition buildFullURL :: "library \<Rightarrow> Client \<Rightarrow> string \<Rightarrow> panic + string" where
  "buildFullURL L c path =
     (case url_Parse L (baseURL c @ apiVersionPath @ ''/'') of
        Inl err \<Rightarrow> Inl NilPointerDereference
      | Inr baseURL' \<Rightarrow> Inr (URL_String (ResolveReference baseURL' (URL_of_Path path))))"

subsection \<open>The request helpers\<close>

text \<open>
  Each helper is a method on \<open>*Client\<close>. It returns the client as the call leaves it,
  the \<open>*Response\<close> and the error; or it panics.
\<close>

type_synonym outcome = "panic + (Client \<times> Response option \<times> error option)"

text \<open>
  The common tail of \<open>Post\<close>, \<open>Put\<close>, \<open>Patch\<close>, \<open>Delete\<close> and
  \<open>DeleteWithResponse\<close>: after an error of the library \<open>nil, err\<close>; after a response that
  \<open>checkResponse\<close> rejects, the response with the error; else the response.
\<close>

definition finish :: "library \<Rightarrow> Client \<Rightarrow> req_Client \<times> round_trip \<Rightarrow> outcome" where
  "finish L c sent =
     (case sent of
        (rc, Failed resp err) \<Rightarrow> Inr (c\<lparr>client := rc\<rparr>, None, Some err)
      | (rc, Delivered resp) \<Rightarrow>
          (case checkResponse L resp of
             Some err \<Rightarrow> Inr (c\<lparr>client := rc\<rparr>, Some (Response_of (Some resp)), Some (APIError err))
           | None \<Rightarrow> Inr (c\<lparr>client := rc\<rparr>, Some (Response_of (Some resp)), None)))"

definition Get :: "library \<Rightarrow> Client \<Rightarrow> Context \<Rightarrow> string \<Rightarrow> any option \<Rightarrow> outcome" where
  "Get L c ctx' path result =
     (case buildFullURL L c path of
        Inl p \<Rightarrow> Inl p
      | Inr fullURL \<Rightarrow>
          (let req = (R (client c))\<lparr>ctx := Some ctx', SuccessResult := result\<rparr>
           in case req_send L (client c) ''GET'' fullURL req of
                (rc, Failed resp err) \<Rightarrow> Inr (c\<lparr>client := rc\<rparr>, None, Some err)
              | (rc, Delivered resp) \<Rightarrow>
                  (case checkResponse L resp of
                     Some err \<Rightarrow>
                       Inr (c\<lparr>client := rc\<rparr>, Some (Response_of (Some resp)), Some (APIError err))
                   | None \<Rightarrow>
                       Inr (c\<lparr>client := rc\<rparr>,
                            Some (parsePaginationHeaders (Response_of (Some resp))), None))))"

text \<open>The request of \<open>Post\<close>, \<open>Put\<close>, \<open>Patch\<close> and \<open>DeleteWithResponse\<close>.\<close>

definition body_request :: "Client \<Rightarrow> Context \<Rightarrow> any option \<Rightarrow> any option \<Rightarrow> req_Request" where
  "body_request c ctx' body result =
     (let req = (R (client c))\<lparr>ctx := Some ctx'\<rparr>;
          req = (if body \<noteq> None then req\<lparr>BodyJsonMarshal := body\<rparr> else req);
          req = (if result \<noteq> None then req\<lparr>SuccessResult := result\<rparr> else req)
      in req)"

definition Post ::
  "library \<Rightarrow> Client \<Rightarrow> Context \<Rightarrow> string \<Rightarrow> any option \<Rightarrow> any option \<Rightarrow> outcome" where
  "Post L c ctx' path body result =
     (case buildFullURL L c path of
        Inl p \<Rightarrow> Inl p
      | Inr fullURL \<Rightarrow>
          finish L c (req_send L (client c) ''POST'' fullURL (body_request c ctx' body result)))"

definition Put ::
  "library \<Rightarrow> Client \<Rightarrow> Context \<Rightarrow> string \<Rightarrow> any option \<Rightarrow> any option \<Rightarrow> outcome" where
  "Put L c ctx' path body result =
     (case buildFullURL L c path of
        Inl p \<Rightarrow> Inl p
      | Inr fullURL \<Rightarrow>
          finish L c (req_send L (client c) ''PUT'' fullURL (body_request c ctx' body result)))"

definition Patch ::
  "library \<Rightarrow> Client \<Rightarrow> Context \<Rightarrow> string \<Rightarrow> any option \<Rightarrow> any option \<Rightarrow> outcome" where
  "Patch L c ctx' path body result =
     (case buildFullURL L c path of
        Inl p \<Rightarrow> Inl p
      | Inr fullURL \<Rightarrow>
          finish L c (req_send L (client c) ''PATCH'' fullURL (body_request c ctx' body result)))"

definition Delete :: "library \<Rightarrow> Client \<Rightarrow> Context \<Rightarrow> string \<Rightarrow> any option \<Rightarrow> outcome" where
  "Delete L c ctx' path body =
     (case buildFullURL L c path of
        Inl p \<Rightarrow> Inl p
      | Inr fullURL \<Rightarrow>
          finish L c (req_send L (client c) ''DELETE'' fullURL (body_request c ctx' body None)))"

definition DeleteWithResponse ::
  "library \<Rightarrow> Client \<Rightarrow> Context \<Rightarrow> string \<Rightarrow> any option \<Rightarrow> any option \<Rightarrow> outcome" where
  "DeleteWithResponse L c ctx' path body result =
     (case buildFullURL L c path of
        Inl p \<Rightarrow> Inl p
      | Inr fullURL \<Rightarrow>
          finish L c
            (req_send L (client c) ''DELETE'' fullURL (body_request c ctx' body result)))"

text \<open>\<open>performListRequest\<close>: after an error of the library it returns the wrapped response.\<close>

definition performListRequest ::
  "library \<Rightarrow> Client \<Rightarrow> Context \<Rightarrow> string \<Rightarrow> ListOptions option \<Rightarrow> any option \<Rightarrow> outcome" where
  "performListRequest L c ctx' path opt result =
     (case buildFullURL L c path of
        Inl p \<Rightarrow> Inl p
      | Inr fullURL \<Rightarrow>
          (let req = (R (client c))\<lparr>ctx := Some ctx'\<rparr>;
               req = req\<lparr>SuccessResult := result\<rparr>;
               req = buildQueryParams req opt
           in case req_send L (client c) ''GET'' fullURL req of
                (rc, Failed resp err) \<Rightarrow> Inr (c\<lparr>client := rc\<rparr>, Some (Response_of resp), Some err)
              | (rc, Delivered resp) \<Rightarrow>
                  (case checkResponse L resp of
                     Some err \<Rightarrow>
                       Inr (c\<lparr>client := rc\<rparr>, Some (Response_of (Some resp)), Some (APIError err))
                   | None \<Rightarrow>
                       Inr (c\<lparr>client := rc\<rparr>,
                            Some (parsePaginationHeaders (Response_of (Some resp))), None))))"

subsection \<open>Service operations that put an identifier into the path\<close>

text \<open>
  \<open>RepositoriesService.ListBranches\<close> and \<open>GetBranch\<close> format the identifiers into the
  path as they are; \<open>UsersService.GetUser\<close> passes the identifier through
  \<open>url.PathEscape\<close> first. The service's \<open>client\<close> pointer is given dereferenced. The
  decoded result, which the library writes through the \<open>result\<close> pointer, is not part of
  the model; the operations return what the helper returns.
\<close>

definition PathEscape :: "string \<Rightarrow> string" where
  "PathEscape s = escape s encodePathSegment"

definition ListBranches_path :: "string \<Rightarrow> string" where
  "ListBranches_path repoPath = ''repos/'' @ repoPath @ ''/branches''"

definition GetBranch_path :: "string \<Rightarrow> string \<Rightarrow> string" where
  "GetBranch_path repoPath branchName = ''repos/'' @ repoPath @ ''/branches/'' @ branchName"

definition GetUser_path :: "string \<Rightarrow> string" where
  "GetUser_path userUID = ''users/'' @ PathEscape userUID"

definition ListBranches ::
  "library \<Rightarrow> Client \<Rightarrow> Context \<Rightarrow> string \<Rightarrow> ListOptions option \<Rightarrow> outcome" where
  "ListBranches L c ctx' repoPath opt =
     performListRequest L c ctx' (ListBranches_path repoPath) opt (Some (Any ''[]*Branch''))"

definition GetBranch :: "library \<Rightarrow> Client \<Rightarrow> Context \<Rightarrow> string \<Rightarrow> string \<Rightarrow> outcome" where
  "GetBranch L c ctx' repoPath branchName =
     Get L c ctx' (GetBranch_path repoPath branchName) (Some (Any ''Branch''))"

definition GetUser :: "library \<Rightarrow> Client \<Rightarrow> Context \<Rightarrow> string \<Rightarrow> outcome" where
  "GetUser L c ctx' userUID = Get L c ctx' (GetUser_path userUID) (Some (Any ''User''))"

subsection \<open>Notions used to state the properties\<close>

text \<open>The segments of a path: \<open>strings.Split(p, "/")\<close>.\<close>

fun segments :: "string \<Rightarrow> string list" where
  "segments [] = [[]]"
| "segments (c # s) =
     (if c = CHR ''/'' then [] # segments s
      else (case segments s of [] \<Rightarrow> [[c]] | seg # segs \<Rightarrow> (c # seg) # segs))"

definition no_dot_segments :: "string \<Rightarrow> bool" where
  "no_dot_segments p = (''.'' \<notin> set (segments p) \<and> ''..'' \<notin> set (segments p))"

text \<open>
  The fields of a \<open>Client\<close> that belong to the package: everything but the state of the
  HTTP library's own client.
\<close>

definition same_Client_state :: "Client \<Rightarrow> Client \<Rightarrow> bool" where
  "same_Client_state c c' =
     (baseURL c' = baseURL c \<and> token c' = token c
      \<and> Admin c' = Admin c \<and> Audit c' = Audit c \<and> Auth c' = Auth c \<and> Checks c' = Checks c
      \<and> CiCache c' = CiCache c \<and> Connectors c' = Connectors c \<and> Gitspaces c' = Gitspaces c
      \<and> InfraProviders c' = InfraProviders c \<and> Pipelines c' = Pipelines c
      \<and> Principals c' = Principals c \<and> Plugins c' = Plugins c
      \<and> PullRequests c' = PullRequests c \<and> Repositories c' = Repositories c
      \<and> Resource c' = Resource c \<and> Secrets c' = Secrets c \<and> Spaces c' = Spaces c
      \<and> System c' = System c \<and> Templates c' = Templates c \<and> Upload c' = Upload c
      \<and> Users c' = Users c \<and> Webhooks c' = Webhooks c)"

text \<open>A request succeeded: the library delivered a response and its status is 2xx.\<close>

definition request_succeeded :: "round_trip \<Rightarrow> bool" where
  "request_succeeded rt =
     (case rt of Failed resp err \<Rightarrow> False | Delivered resp \<Rightarrow> IsSuccessState resp)"

text \<open>The services of a client all exist and all point to the address \<open>p\<close>.\<close>

definition services_point_to :: "Client \<Rightarrow> Client_ptr \<Rightarrow> bool" where
  "services_point_to c p =
     list_all (\<lambda>service. service = Some \<lparr>Service_client = p\<rparr>)
       [Admin c, Audit c, Auth c, Checks c, CiCache c, Connectors c, Gitspaces c,
        InfraProviders c, Pipelines c, Principals c, Plugins c, PullRequests c,
        Repositories c, Resource c, Secrets c, Spaces c, System c, Templates c, Upload c,
        Users c, Webhooks c]"

subsection \<open>A library for closed examples\<close>

text \<open>
  \<open>url.Parse("https://gitness.com/api/v1/")\<close>, the default base URL followed by the API
  version path and a slash: scheme \<open>https\<close>, host \<open>gitness.com\<close>, path \<open>/api/v1/\<close>.
\<close>

definition gitness_api_URL :: URL where
  "gitness_api_URL =
     \<lparr>Scheme = ''https'', Opaque = [], User = None, Host = ''gitness.com'',
      Path = ''/api/v1/'', RawPath = [], OmitHost = False, ForceQuery = False,
      RawQuery = [], Fragment = [], RawFragment = []\<rparr>"

text \<open>
  A library that knows the values of the library functions at the inputs of the examples
  below: \<open>url.Parse\<close> on the default API base, \<open>json.Unmarshal\<close> on four bodies (any
  other body is taken as not JSON), \<open>http.StatusText\<close> on three codes. Every request is
  answered by \<open>answer\<close>; a delivered response records the request's method and URL, as
  \<open>resp.Request\<close> does.
\<close>

definition example_Unmarshal :: "string \<Rightarrow> error + (string \<rightharpoonup> json_value)" where
  \<open>example_Unmarshal data =
     (if data = ''{"message":"Bad Request","details":"Invalid input provided"}'' then
        Inr [''message'' \<mapsto> JString ''Bad Request'',
             ''details'' \<mapsto> JString ''Invalid input provided'']
      else if data = ''{"message":""}'' then Inr [''message'' \<mapsto> JString []]
      else if data = ''{"message":404}'' then Inr [''message'' \<mapsto> JNumber ''404'']
      else if data = ''{}'' then Inr Map.empty
      else Inl (LibraryError ''invalid character''))\<close>

definition example_library :: "round_trip \<Rightarrow> library" where
  "example_library answer =
     \<lparr>url_Parse =
        (\<lambda>rawURL. if rawURL = ''https://gitness.com/api/v1/'' then Inr gitness_api_URL
                  else Inl (LibraryError ''parse'')),
      json_Unmarshal = example_Unmarshal,
      http_StatusText =
        (\<lambda>code. if code = 400 then ''Bad Request''
                 else if code = 404 then ''Not Found''
                 else if code = 500 then ''Internal Server Error''
                 else []),
      req_send =
        (\<lambda>rc method rawURL req.
           (rc, case answer of
                  Failed resp err \<Rightarrow> Failed resp err
                | Delivered resp \<Rightarrow>
                    Delivered (resp\<lparr>Request_Method := method, Request_URL := rawURL\<rparr>)))\<rparr>"

text \<open>
  Two more results of \<open>url.Parse\<close>. \<open>url.Parse("foo:/api/v1/")\<close>: a scheme followed by a
  single slash has no authority, which \<open>OmitHost\<close> records. And
  \<open>url.Parse("http://h/a%2Fb/api/v1/")\<close>: the path holds an escaped slash, so \<open>RawPath\<close>
  keeps the text as written. \<open>parses_as rawURL u L\<close> is the library \<open>L\<close> whose
  \<open>url.Parse\<close> also knows that \<open>rawURL\<close> reads as \<open>u\<close>.
\<close>

definition omitted_host_URL :: URL where
  "omitted_host_URL =
     \<lparr>Scheme = ''foo'', Opaque = [], User = None, Host = [],
      Path = ''/api/v1/'', RawPath = [], OmitHost = True, ForceQuery = False,
      RawQuery = [], Fragment = [], RawFragment = []\<rparr>"

definition escaped_base_URL :: URL where
  "escaped_base_URL =
     \<lparr>Scheme = ''http'', Opaque = [], User = None, Host = ''h'',
      Path = ''/a/b/api/v1/'', RawPath = ''/a%2Fb/api/v1/'', OmitHost = False,
      ForceQuery = False, RawQuery = [], Fragment = [], RawFragment = []\<rparr>"

definition parses_as :: "string \<Rightarrow> URL \<Rightarrow> library \<Rightarrow> library" where
  "parses_as rawURL u L =
     L\<lparr>url_Parse := (\<lambda>s. if s = rawURL then Inr u else url_Parse L s)\<rparr>"

text \<open>The client that \<open>NewClient("test-token")\<close> stores, at address 0 of an empty store.\<close>

definition example_Client :: Client where
  "example_Client = (case NewClient [] ''test-token'' [] of Inr (p, h) \<Rightarrow> h ! p)"

text \<open>
  A response to a list request, with the pagination headers that the package's test
  server for list methods sets (it sets no \<open>x-next-page\<close>).
\<close>

definition example_headers :: Header where
  "example_headers =
     [''X-Page'' \<mapsto> [''1''], ''X-Per-Page'' \<mapsto> [''10''], ''X-Total'' \<mapsto> [''50''],
      ''X-Total-Pages'' \<mapsto> [''5'']]"

definition example_response :: req_Response where
  "example_response =
     \<lparr>StatusCode = 200, Header = example_headers, Bytes = ''[]'', Request_Method = ''GET'',
      Request_URL = ''https://gitness.com/api/v1/users''\<rparr>"

text \<open>
  Responses of the four kinds the error handling tells apart: an error with the JSON
  body of the package's error-handling test, an error whose \<open>message\<close> is the empty
  string, an error whose body is JSON without a \<open>message\<close>, and an error whose body
  is not JSON.
\<close>

definition bad_request_response :: req_Response where
  \<open>bad_request_response =
     \<lparr>StatusCode = 400, Header = [''Content-Type'' \<mapsto> [''application/json'']],
      Bytes = ''{"message":"Bad Request","details":"Invalid input provided"}'',
      Request_Method = ''GET'', Request_URL = ''https://gitness.com/api/v1/test''\<rparr>\<close>

definition empty_message_response :: req_Response where
  \<open>empty_message_response =
     \<lparr>StatusCode = 400, Header = [''Content-Type'' \<mapsto> [''application/json'']],
      Bytes = ''{"message":""}'',
      Request_Method = ''GET'', Request_URL = ''https://gitness.com/api/v1/test''\<rparr>\<close>

definition no_message_response :: req_Response where
  \<open>no_message_response =
     \<lparr>StatusCode = 500, Header = [''Content-Type'' \<mapsto> [''application/json'']],
      Bytes = ''{}'',
      Request_Method = ''GET'', Request_URL = ''https://gitness.com/api/v1/test''\<rparr>\<close>

definition not_found_response :: req_Response where
  "not_found_response =
     \<lparr>StatusCode = 404, Header = Map.empty, Bytes = ''404 page not found'', Request_Method = ''GET'',
      Request_URL = ''https://gitness.com/api/v1/repos/x''\<rparr>"

text \<open>
  The string that \<open>checkResponse\<close> reads under a key of the error body: empty when the
  body is not JSON or holds no string under the key. And the message it makes from the
  status.
\<close>

definition body_string :: "library \<Rightarrow> req_Response \<Rightarrow> string \<Rightarrow> string" where
  "body_string L r key =
     (case json_Unmarshal L (Bytes r) of
        Inl err \<Rightarrow> []
      | Inr errorBody \<Rightarrow> (case errorBody key of Some (JString s) \<Rightarrow> s | _ \<Rightarrow> []))"

definition status_message :: "library \<Rightarrow> req_Response \<Rightarrow> string" where
  "status_message L r = ''HTTP '' @ Sprintf_d (StatusCode r) @ '': '' @ http_StatusText L (StatusCode r)"

text \<open>
  An operation returned, and it returned an error exactly when the request it sent did not
  succeed.
\<close>

definition returns_error_iff_failed :: "outcome \<Rightarrow> req_Client \<times> round_trip \<Rightarrow> bool" where
  "returns_error_iff_failed out sent =
     (case out of
        Inl p \<Rightarrow> False
      | Inr (c', resp, err) \<Rightarrow> (err \<noteq> None) = (\<not> request_succeeded (snd sent)))"

text \<open>List options with the page and limit of the package's pagination test, and a query.\<close>

definition example_options :: ListOptions where
  "example_options =
     \<lparr>opt_Page = Some 1, opt_Limit = Some 10, opt_Sort = None, opt_Order = None,
      opt_Query = Some ''go''\<rparr>"

section \<open>Properties\<close>

subsection \<open>Escaping and unescaping\<close>

lemma unhex_upperhex: "n < 16 \<Longrightarrow> unhex (upperhex n) = n"
proof -
  assume "n < 16"
  then have "n \<in> set [0..<16]" by simp
  then show ?thesis
    unfolding upt_conv_Cons_Cons
    by (auto simp: unhex_def upperhex_def upt_rec)
qed

lemma ishex_upperhex: "n < 16 \<Longrightarrow> ishex (upperhex n)"
proof -
  assume "n < 16"
  then have "n \<in> set [0..<16]" by simp
  then show ?thesis
    by (auto simp: ishex_def upperhex_def upt_rec)
qed

lemma unescape_escape_byte:
  "unescape (escape_byte mode c @ s) = (case unescape s of None \<Rightarrow> None | Some t \<Rightarrow> Some (c # t))"
  if "mode \<noteq> encodeQueryComponent"
proof (cases "shouldEscape c mode")
  case True
  have "(of_char c :: nat) < 256" by simp
  then have lt: "(of_char c :: nat) div 16 < 16" "(of_char c :: nat) mod 16 < 16"
    by arith+
  have "char_of ((of_char c :: nat) div 16 * 16 + (of_char c :: nat) mod 16) = c"
    by simp
  note h = unhex_upperhex[OF lt(1)] unhex_upperhex[OF lt(2)] ishex_upperhex[OF lt(1)] ishex_upperhex[OF lt(2)]
  have "escape_byte mode c = [CHR ''%'', upperhex ((of_char c :: nat) div 16), upperhex ((of_char c :: nat) mod 16)]"
    using True that by (simp add: escape_byte_def)
  then show ?thesis
    by (simp add: h split: option.splits)
next
  case False
  then have "c \<noteq> CHR ''%''" by (auto simp: shouldEscape_def alphanum_def)
  with False show ?thesis by (simp add: escape_byte_def)
qed

lemma unescape_escape: "mode \<noteq> encodeQueryComponent \<Longrightarrow> unescape (escape s mode) = Some s"
  by (induction s) (simp_all add: escape_def unescape_escape_byte)

subsection \<open>Path segments and \<open>resolvePath\<close>\<close>

lemma segments_not_Nil [simp]: "segments s \<noteq> []"
  by (induction s) (auto split: list.splits)

lemma segments_no_slash:
  "dropWhile (\<lambda>c. c \<noteq> CHR ''/'') s = [] \<Longrightarrow> segments s = [s]"
  by (induction s) (auto split: if_splits)

lemma segments_cut:
  "dropWhile (\<lambda>c. c \<noteq> CHR ''/'') s = c # r \<Longrightarrow>
   c = CHR ''/'' \<and> takeWhile (\<lambda>c. c \<noteq> CHR ''/'') s @ CHR ''/'' # r = s
   \<and> segments s = takeWhile (\<lambda>c. c \<noteq> CHR ''/'') s # segments r"
  by (induction s) (auto split: if_splits)

lemma segments_append_slash:
  "segments (xs @ CHR ''/'' # ys) = segments xs @ segments ys"
  by (induction xs) (auto split: list.splits)

lemma resolve_loop_no_dots:
  "no_dot_segments remaining \<Longrightarrow>
   resolve_loop (dst, first) remaining =
     ((dst @ (if first then [] else ''/'') @ remaining, False), last (segments remaining))"
proof (induction "(dst, first)" remaining arbitrary: dst first rule: resolve_loop.induct)
  case (1 remaining)
  show ?case
  proof (cases "dropWhile (\<lambda>c. c \<noteq> CHR ''/'') remaining")
    case Nil
    then have segs: "segments remaining = [remaining]"
      by (rule segments_no_slash)
    have tw: "takeWhile (\<lambda>c. c \<noteq> CHR ''/'') remaining = remaining"
      using Nil by (metis append_Nil2 takeWhile_dropWhile_id)
    from 1(2) segs have "remaining \<noteq> ''.''" "remaining \<noteq> ''..''"
      by (auto simp: no_dot_segments_def)
    have "resolve_loop (dst, first) remaining = (resolve_step (dst, first) remaining, remaining)"
      by (subst resolve_loop.simps) (simp only: Nil tw list.case)
    moreover have "resolve_step (dst, first) remaining
                     = ((if first then dst else dst @ ''/'') @ remaining, False)"
      using \<open>remaining \<noteq> ''.''\<close> \<open>remaining \<noteq> ''..''\<close> by (simp add: resolve_step_def)
    ultimately show ?thesis
      using segs by simp
  next
    case (Cons c r)
    note cut = segments_cut[OF Cons]
    let ?elem = "takeWhile (\<lambda>c. c \<noteq> CHR ''/'') remaining"
    from 1(2) cut have nd: "?elem \<noteq> ''.''" "?elem \<noteq> ''..''" "no_dot_segments r"
      by (auto simp: no_dot_segments_def)
    have step: "resolve_step (dst, first) ?elem = ((if first then dst else dst @ ''/'') @ ?elem, False)"
      using nd by (simp add: resolve_step_def)
    have "resolve_loop (dst, first) remaining
            = resolve_loop ((if first then dst else dst @ ''/'') @ ?elem, False) r"
      by (subst resolve_loop.simps) (simp only: Cons step list.case)
    also have "\<dots> = ((((if first then dst else dst @ ''/'') @ ?elem) @ ''/'' @ r, False), last (segments r))"
      using 1(1)[OF Cons step nd(3)] by simp
    finally have loop: "resolve_loop (dst, first) remaining =
        ((((if first then dst else dst @ ''/'') @ ?elem) @ ''/'' @ r, False), last (segments r))" .
    have "last (segments remaining) = last (segments r)"
      using cut by simp
    moreover have "((if first then dst else dst @ ''/'') @ ?elem) @ ''/'' @ r
                     = dst @ (if first then [] else ''/'') @ (?elem @ CHR ''/'' # r)"
      by simp
    ultimately show ?thesis
      using loop cut by simp
  qed
qed

lemma resolvePath_no_dots:
  assumes "no_dot_segments full" "full \<noteq> []" "hd full = CHR ''/''"
  shows "(case resolve_loop (''/'', True) full of
                 ((dst, first), elem) \<Rightarrow>
                   (let dst = (if elem = ''.'' \<or> elem = ''..'' then dst @ ''/'' else dst)
                    in if length dst > 1 \<and> dst ! 1 = CHR ''/'' then tl dst else dst)) = full"
proof -
  have "last (segments full) \<in> set (segments full)"
    by (rule last_in_set) simp
  then have l: "last (segments full) \<noteq> ''.''" "last (segments full) \<noteq> ''..''"
    using assms(1) unfolding no_dot_segments_def by metis+
  obtain t where t: "full = CHR ''/'' # t"
    using assms(2,3) by (cases full) auto
  have "resolve_loop (''/'', True) full = ((''/'' @ full, False), last (segments full))"
    using resolve_loop_no_dots[OF assms(1), of "''/''" True] by simp
  then show ?thesis
    using l by (simp add: t)
qed

lemma escape_append: "escape (a @ b) mode = escape a mode @ escape b mode"
  by (simp add: escape_def)

lemma escape_byte_slash: "escape_byte encodePath CHR ''/'' = ''/''"
  by (simp add: escape_byte_def shouldEscape_def alphanum_def)

lemma escape_byte_no_slash: "c \<noteq> CHR ''/'' \<Longrightarrow> CHR ''/'' \<notin> set (escape_byte mode c)"
proof -
  have hex: "upperhex n \<noteq> CHR ''/''" if "n < 16" for n
  proof -
    from that have "n \<in> set [0..<16]" by simp
    then show ?thesis by (auto simp: upperhex_def upt_rec)
  qed
  have lt: "(of_char c :: nat) div 16 < 16" "(of_char c :: nat) mod 16 < 16"
    using nat_of_char_less_256[of c] by arith+
  note h = hex[OF lt(1)] hex[OF lt(2)]
  assume "c \<noteq> CHR ''/''"
  then show "CHR ''/'' \<notin> set (escape_byte mode c)"
    using h by (simp add: escape_byte_def)
qed

lemma segments_prepend_no_slash:
  "CHR ''/'' \<notin> set xs \<Longrightarrow> segments (xs @ s) = (xs @ hd (segments s)) # tl (segments s)"
  by (induction xs) (auto split: list.splits)

lemma segments_escape:
  "segments (escape s encodePath) = map (\<lambda>seg. escape seg encodePath) (segments s)"
proof (induction s)
  case Nil
  show ?case by (simp add: escape_def)
next
  case (Cons c s)
  have e: "escape (c # s) encodePath = escape_byte encodePath c @ escape s encodePath"
    by (simp add: escape_def)
  show ?case
  proof (cases "c = CHR ''/''")
    case True
    then show ?thesis using Cons by (simp add: e escape_byte_slash escape_def)
  next
    case False
    obtain seg segs where sg: "segments s = seg # segs"
      by (cases "segments s") auto
    from False show ?thesis
      using Cons sg by (simp add: e segments_prepend_no_slash[OF escape_byte_no_slash[OF False]] escape_def)
  qed
qed

lemma escape_eq_dot:
  "escape seg encodePath = ''.'' \<longleftrightarrow> seg = ''.''"
  "escape seg encodePath = ''..'' \<longleftrightarrow> seg = ''..''"
proof -
  have u: "unescape (escape seg encodePath) = Some seg"
    by (simp add: unescape_escape)
  have d: "escape ''.'' encodePath = ''.''" "escape ''..'' encodePath = ''..''"
    by (simp_all add: escape_def escape_byte_def shouldEscape_def alphanum_def)
  have ud: "unescape ''.'' = Some ''.''" "unescape ''..'' = Some ''..''"
    by simp_all
  show "escape seg encodePath = ''.'' \<longleftrightarrow> seg = ''.''"
  proof
    assume a: "escape seg encodePath = ''.''"
    from u have "unescape ''.'' = Some seg" unfolding a .
    with ud(1) show "seg = ''.''" by simp
  next
    assume "seg = ''.''"
    then show "escape seg encodePath = ''.''" using d(1) by simp
  qed
  show "escape seg encodePath = ''..'' \<longleftrightarrow> seg = ''..''"
  proof
    assume a: "escape seg encodePath = ''..''"
    from u have "unescape ''..'' = Some seg" unfolding a .
    with ud(2) show "seg = ''..''" by simp
  next
    assume "seg = ''..''"
    then show "escape seg encodePath = ''..''" using d(2) by simp
  qed
qed

lemma no_dot_segments_escape:
  "no_dot_segments (escape s encodePath) = no_dot_segments s"
proof -
  have "''.'' \<in> (\<lambda>seg. escape seg encodePath) ` S \<longleftrightarrow> ''.'' \<in> S" for S
    using escape_eq_dot(1) by (metis (no_types, lifting) image_iff)
  moreover have "''..'' \<in> (\<lambda>seg. escape seg encodePath) ` S \<longleftrightarrow> ''..'' \<in> S" for S
    using escape_eq_dot(2) by (metis (no_types, lifting) image_iff)
  ultimately show ?thesis
    by (simp add: no_dot_segments_def segments_escape)
qed

lemma no_dot_segments_append:
  assumes "no_dot_segments a" "a \<noteq> []" "last a = CHR ''/''" "no_dot_segments b"
  shows "no_dot_segments (a @ b)"
proof -
  obtain a' where a: "a = a' @ ''/''"
    using assms(2,3) by (metis append_butlast_last_id)
  have "segments a = segments a' @ [[]]"
    unfolding a using segments_append_slash[of a' "[]"] by simp
  moreover have "segments (a @ b) = segments a' @ segments b"
    unfolding a using segments_append_slash[of a' b] by simp
  ultimately show ?thesis
    using assms(1,4) by (auto simp: no_dot_segments_def)
qed

subsection \<open>\<open>buildFullURL\<close> on a path without dot segments\<close>

lemma escape_byte_not_Nil: "escape_byte mode c \<noteq> []"
  by (simp add: escape_byte_def)

lemma escape_eq_Nil [simp]: "escape s mode = [] \<longleftrightarrow> s = []"
  by (cases s) (simp_all add: escape_def escape_byte_not_Nil)

lemma hd_escape:
  "s \<noteq> [] \<Longrightarrow> (hd (escape s encodePath) = CHR ''/'') = (hd s = CHR ''/'')"
proof (cases s)
  case Nil
  assume "s \<noteq> []" with Nil show ?thesis by simp
next
  case (Cons c t)
  have e: "escape (c # t) encodePath = escape_byte encodePath c @ escape t encodePath"
    by (simp add: escape_def)
  show ?thesis
  proof (cases "c = CHR ''/''")
    case True
    then show ?thesis by (simp add: Cons escape_def escape_byte_slash)
  next
    case False
    have "hd (escape_byte encodePath c) \<in> set (escape_byte encodePath c)"
      by (simp add: escape_byte_not_Nil)
    with escape_byte_no_slash[OF False, of encodePath]
    have "hd (escape_byte encodePath c) \<noteq> CHR ''/''" by metis
    then show ?thesis
      using False by (simp add: e Cons escape_byte_not_Nil)
  qed
qed

lemma through_last_slash_id:
  "s \<noteq> [] \<Longrightarrow> last s = CHR ''/'' \<Longrightarrow> through_last_slash s = s"
proof -
  assume "s \<noteq> []" "last s = CHR ''/''"
  then obtain t where "s = t @ ''/''"
    by (metis append_butlast_last_id)
  then show ?thesis by (simp add: through_last_slash_def)
qed

lemma resolvePath_appended:
  assumes E: "E \<noteq> []" "hd E = CHR ''/''" "last E = CHR ''/''" "no_dot_segments E"
    and e: "e = [] \<or> hd e \<noteq> CHR ''/''" "no_dot_segments e"
  shows "resolvePath E e = E @ e"
proof -
  have full: "(if e = [] then E
               else if hd e \<noteq> CHR ''/'' then through_last_slash E @ e else e) = E @ e"
    using e(1) E by (auto simp: through_last_slash_id)
  have nd: "no_dot_segments (E @ e)"
    by (rule no_dot_segments_append[OF E(4) E(1) E(3) e(2)])
  have ne: "E @ e \<noteq> []" "hd (E @ e) = CHR ''/''"
    using E by simp_all
  show ?thesis
    unfolding resolvePath_def full Let_def
    using resolvePath_no_dots[OF nd ne] ne(1) by (simp add: Let_def)
qed

subsection \<open>Pagination headers\<close>

lemma canonical_pagination_keys:
  "CanonicalMIMEHeaderKey ''x-page'' = ''X-Page''"
  "CanonicalMIMEHeaderKey ''x-per-page'' = ''X-Per-Page''"
  "CanonicalMIMEHeaderKey ''x-next-page'' = ''X-Next-Page''"
  "CanonicalMIMEHeaderKey ''x-total'' = ''X-Total''"
  "CanonicalMIMEHeaderKey ''x-total-pages'' = ''X-Total-Pages''"
  by (simp_all add: CanonicalMIMEHeaderKey_def validHeaderFieldByte_def toUpper_def
      toLower_def Let_def)

lemma parse_header_int_present:
  "h (CanonicalMIMEHeaderKey key) = Some (v # vs) \<Longrightarrow> Atoi v = Some n \<Longrightarrow>
   parse_header_int h key field = Some n"
  by (auto simp: parse_header_int_def Header_Get_def Atoi_def)

lemma parse_header_int_absent:
  "h (CanonicalMIMEHeaderKey key) = None \<Longrightarrow> parse_header_int h key field = field"
  by (simp add: parse_header_int_def Header_Get_def)

lemma parsePaginationHeaders_Some:
  "Response response = Some r \<Longrightarrow>
   parsePaginationHeaders response =
     response\<lparr>Page := parse_header_int (Header r) ''x-page'' (Page response),
              PerPage := parse_header_int (Header r) ''x-per-page'' (PerPage response),
              NextPage := parse_header_int (Header r) ''x-next-page'' (NextPage response),
              Total := parse_header_int (Header r) ''x-total'' (Total response),
              TotalPages := parse_header_int (Header r) ''x-total-pages'' (TotalPages response)\<rparr>"
  by (simp add: parsePaginationHeaders_def Let_def)

text \<open>
  C2. Let \<open>response\<close> wrap a response \<open>r\<close>, and let \<open>parsePaginationHeaders\<close> run on it.
  For each of the headers \<open>x-page\<close>, \<open>x-per-page\<close>, \<open>x-next-page\<close>, \<open>x-total\<close> and
  \<open>x-total-pages\<close> (stored under their canonical keys): when the header is present and
  \<open>strconv.Atoi\<close> reads its first value as the integer \<open>n\<close>, the field \<open>Page\<close>, \<open>PerPage\<close>,
  \<open>NextPage\<close>, \<open>Total\<close> or \<open>TotalPages\<close> points to \<open>n\<close>; when the header is absent, the
  field is left as it was, and so is nil in a response \<open>&Response{Response: r}\<close>, which is
  what \<open>Get\<close> and \<open>performListRequest\<close> pass.
\<close>

theorem parsePaginationHeaders_fields:
  assumes "Response response = Some r"
  shows "(Header r ''X-Page'' = Some (v1 # vs1) \<and> Atoi v1 = Some n1
            \<longrightarrow> Page (parsePaginationHeaders response) = Some n1)
       \<and> (Header r ''X-Page'' = None
            \<longrightarrow> Page (parsePaginationHeaders response) = Page response
              \<and> Page (parsePaginationHeaders (Response_of (Some r))) = None)
       \<and> (Header r ''X-Per-Page'' = Some (v2 # vs2) \<and> Atoi v2 = Some n2
            \<longrightarrow> PerPage (parsePaginationHeaders response) = Some n2)
       \<and> (Header r ''X-Per-Page'' = None
            \<longrightarrow> PerPage (parsePaginationHeaders response) = PerPage response
              \<and> PerPage (parsePaginationHeaders (Response_of (Some r))) = None)
       \<and> (Header r ''X-Next-Page'' = Some (v3 # vs3) \<and> Atoi v3 = Some n3
            \<longrightarrow> NextPage (parsePaginationHeaders response) = Some n3)
       \<and> (Header r ''X-Next-Page'' = None
            \<longrightarrow> NextPage (parsePaginationHeaders response) = NextPage response
              \<and> NextPage (parsePaginationHeaders (Response_of (Some r))) = None)
       \<and> (Header r ''X-Total'' = Some (v4 # vs4) \<and> Atoi v4 = Some n4
            \<longrightarrow> Total (parsePaginationHeaders response) = Some n4)
       \<and> (Header r ''X-Total'' = None
            \<longrightarrow> Total (parsePaginationHeaders response) = Total response
              \<and> Total (parsePaginationHeaders (Response_of (Some r))) = None)
       \<and> (Header r ''X-Total-Pages'' = Some (v5 # vs5) \<and> Atoi v5 = Some n5
            \<longrightarrow> TotalPages (parsePaginationHeaders response) = Some n5)
       \<and> (Header r ''X-Total-Pages'' = None
            \<longrightarrow> TotalPages (parsePaginationHeaders response) = TotalPages response
              \<and> TotalPages (parsePaginationHeaders (Response_of (Some r))) = None)"
proof -
  have fresh: "Response (Response_of (Some r)) = Some r"
    by (simp add: Response_of_def)
  show ?thesis
    using assms
    by (simp add: parsePaginationHeaders_Some parsePaginationHeaders_Some[OF fresh]
        parse_header_int_present parse_header_int_absent canonical_pagination_keys)
      (simp add: Response_of_def)
qed

lemma Atoi_examples: "Atoi ''1'' = Some 1" "Atoi ''10'' = Some 10" "Atoi ''50'' = Some 50" "Atoi ''5'' = Some 5"
  by (simp_all add: Atoi_def digit_val_def intSize_def)

theorem parsePaginationHeaders_fields_witness:
  "Response (Response_of (Some example_response)) = Some example_response
   \<and> Header example_response ''X-Page'' = Some [''1''] \<and> Atoi ''1'' = Some 1
   \<and> Page (parsePaginationHeaders (Response_of (Some example_response))) = Some 1
   \<and> PerPage (parsePaginationHeaders (Response_of (Some example_response))) = Some 10
   \<and> Header example_response ''X-Next-Page'' = None
   \<and> NextPage (parsePaginationHeaders (Response_of (Some example_response))) = None
   \<and> Total (parsePaginationHeaders (Response_of (Some example_response))) = Some 50
   \<and> TotalPages (parsePaginationHeaders (Response_of (Some example_response))) = Some 5"
proof -
  have r: "Response (Response_of (Some example_response)) = Some example_response"
    by (simp add: Response_of_def)
  show ?thesis
    using parsePaginationHeaders_fields[OF r, of "''1''" "[]" 1 "''10''" "[]" 10 "''0''" "[]" 0
        "''50''" "[]" 50 "''5''" "[]" 5]
    by (simp add: example_response_def example_headers_def Atoi_examples Response_of_def)
qed

subsection \<open>Error responses\<close>

lemma checkResponse_success: "IsSuccessState r \<Longrightarrow> checkResponse L r = None"
  by (simp add: checkResponse_def)

lemma checkResponse_error:
  "\<not> IsSuccessState r \<Longrightarrow>
   checkResponse L r =
     Some \<lparr>Error_Response = Some r,
           Message = (if body_string L r ''message'' = [] then status_message L r
                      else body_string L r ''message''),
           Details = body_string L r ''details''\<rparr>"
  by (simp add: checkResponse_def body_string_def status_message_def Let_def
      split: sum.splits option.splits json_value.splits)

lemma body_string_present:
  "json_Unmarshal L (Bytes r) = Inr m \<Longrightarrow> m key = Some (JString s) \<Longrightarrow> body_string L r key = s"
  by (simp add: body_string_def)

lemma body_string_invalid:
  "json_Unmarshal L (Bytes r) = Inl err \<Longrightarrow> body_string L r key = []"
  by (simp add: body_string_def)

lemma body_string_no_string:
  "json_Unmarshal L (Bytes r) = Inr m \<Longrightarrow> \<forall>s. m key \<noteq> Some (JString s) \<Longrightarrow> body_string L r key = []"
  by (auto simp: body_string_def split: option.splits json_value.splits)

lemma status_message_not_Nil: "status_message L r \<noteq> []"
  by (simp add: status_message_def)

lemma checkResponse_None_iff: "checkResponse L r = None \<longleftrightarrow> IsSuccessState r"
  by (simp add: checkResponse_def Let_def)

lemma checkResponse_SomeD: "checkResponse L r = Some e \<Longrightarrow> \<not> IsSuccessState r"
  by (auto simp: checkResponse_success)

text \<open>
  C8. For a response that is not in the success state and whose body \<open>json.Unmarshal\<close>
  rejects, or reads as an object without a string under \<open>message\<close>, the \<open>Message\<close> of the
  \<open>ErrorResponse\<close> that \<open>checkResponse\<close> returns is \<open>HTTP <status code>: <status text>\<close>.
  And the \<open>Message\<close> of any \<open>ErrorResponse\<close> that \<open>checkResponse\<close> returns is not empty.
\<close>

theorem checkResponse_fallback_message:
  "(\<not> IsSuccessState r
      \<and> (json_Unmarshal L (Bytes r) = Inl err
          \<or> json_Unmarshal L (Bytes r) = Inr m \<and> (\<forall>s. m ''message'' \<noteq> Some (JString s)))
     \<longrightarrow> map_option Message (checkResponse L r)
          = Some (''HTTP '' @ Sprintf_d (StatusCode r) @ '': '' @ http_StatusText L (StatusCode r)))
   \<and> (checkResponse L r = Some e \<longrightarrow> Message e \<noteq> [])"
proof (intro conjI impI)
  assume a: "\<not> IsSuccessState r
      \<and> (json_Unmarshal L (Bytes r) = Inl err
          \<or> json_Unmarshal L (Bytes r) = Inr m \<and> (\<forall>s. m ''message'' \<noteq> Some (JString s)))"
  then have "body_string L r ''message'' = []"
    using body_string_invalid body_string_no_string by blast
  with a show "map_option Message (checkResponse L r)
          = Some (''HTTP '' @ Sprintf_d (StatusCode r) @ '': '' @ http_StatusText L (StatusCode r))"
    by (simp add: checkResponse_error status_message_def)
next
  assume e: "checkResponse L r = Some e"
  then have "\<not> IsSuccessState r"
    using checkResponse_success[of r L] by auto
  from checkResponse_error[OF this, of L] e show "Message e \<noteq> []"
    using status_message_not_Nil[of L r] by (auto split: if_splits)
qed

theorem checkResponse_fallback_message_witness:
  "\<not> IsSuccessState not_found_response
   \<and> json_Unmarshal (example_library (Delivered not_found_response)) (Bytes not_found_response)
       = Inl (LibraryError ''invalid character'')
   \<and> checkResponse (example_library (Delivered not_found_response)) not_found_response
       = Some \<lparr>Error_Response = Some not_found_response, Message = ''HTTP 404: Not Found'', Details = []\<rparr>
   \<and> Message \<lparr>Error_Response = Some not_found_response, Message = ''HTTP 404: Not Found'', Details = []\<rparr> \<noteq> []"
proof -
  have s: "\<not> IsSuccessState not_found_response"
    by (simp add: IsSuccessState_def not_found_response_def)
  have j: "json_Unmarshal (example_library (Delivered not_found_response)) (Bytes not_found_response)
       = Inl (LibraryError ''invalid character'')"
    by (simp add: example_library_def example_Unmarshal_def not_found_response_def)
  have c: "checkResponse (example_library (Delivered not_found_response)) not_found_response
       = Some \<lparr>Error_Response = Some not_found_response, Message = ''HTTP 404: Not Found'', Details = []\<rparr>"
    using s j by (simp add: checkResponse_def Let_def)
       (simp add: example_library_def not_found_response_def Sprintf_d_def digits_of.simps)
  show ?thesis
    using s j c checkResponse_fallback_message[of not_found_response
        "example_library (Delivered not_found_response)" "LibraryError ''invalid character''" Map.empty
        "\<lparr>Error_Response = Some not_found_response, Message = ''HTTP 404: Not Found'', Details = []\<rparr>"]
    by simp
qed

subsection \<open>The example client and library\<close>

lemma example_parse:
  "url_Parse (example_library a) ''https://gitness.com/api/v1/'' = Inr gitness_api_URL"
  by (simp add: example_library_def)

lemma example_Client_default: "baseURL example_Client = defaultBaseURL"
  by (simp add: example_Client_def NewClient_def Let_def)

lemma example_buildFullURL:
  "buildFullURL (example_library a) example_Client path
     = Inr (URL_String (ResolveReference gitness_api_URL (URL_of_Path path)))"
  by (simp add: buildFullURL_def example_Client_default defaultBaseURL_def apiVersionPath_def
      example_parse)

lemma example_test_URL:
  "buildFullURL (example_library a) example_Client ''test'' = Inr ''https://gitness.com/api/v1/test''"
  unfolding example_buildFullURL by code_simp

lemma example_send:
  "req_send (example_library (Delivered resp)) rc method rawURL req
     = (rc, Delivered (resp\<lparr>Request_Method := method, Request_URL := rawURL\<rparr>))"
  by (simp add: example_library_def)

lemma example_finish:
  "IsSuccessState resp \<Longrightarrow>
   finish (example_library a) c (rc, Delivered resp)
     = Inr (c\<lparr>client := rc\<rparr>, Some (Response_of (Some resp)), None)"
  by (simp add: finish_def checkResponse_success)

lemma gitness_api_URL_String: "URL_String gitness_api_URL = ''https://gitness.com/api/v1/''"
  by code_simp

lemma gitness_api_URL_no_dots: "no_dot_segments (Path gitness_api_URL)"
  by (simp add: gitness_api_URL_def no_dot_segments_def)

lemma gitness_api_URL_fields:
  "Opaque gitness_api_URL = []" "RawPath gitness_api_URL = []" "\<not> OmitHost gitness_api_URL"
  "\<not> ForceQuery gitness_api_URL" "RawQuery gitness_api_URL = []" "Fragment gitness_api_URL = []"
  "Path gitness_api_URL \<noteq> []" "hd (Path gitness_api_URL) = CHR ''/''"
  "last (Path gitness_api_URL) = CHR ''/''"
  by (simp_all add: gitness_api_URL_def)

subsection \<open>Errors of the request helpers\<close>

lemma finish_error_iff:
  "returns_error_iff_failed (finish L c sent) sent"
  by (cases sent; cases "snd sent")
     (auto simp: returns_error_iff_failed_def finish_def request_succeeded_def
           checkResponse_None_iff dest: checkResponse_SomeD split: option.splits)

lemma Get_error_iff:
  "buildFullURL L c path = Inr fullURL \<Longrightarrow>
   returns_error_iff_failed (Get L c ctx' path result)
     (req_send L (client c) ''GET'' fullURL ((R (client c))\<lparr>ctx := Some ctx', SuccessResult := result\<rparr>))"
  by (cases "req_send L (client c) ''GET'' fullURL ((R (client c))\<lparr>ctx := Some ctx', SuccessResult := result\<rparr>)";
      cases "snd (req_send L (client c) ''GET'' fullURL ((R (client c))\<lparr>ctx := Some ctx', SuccessResult := result\<rparr>))")
     (auto simp: returns_error_iff_failed_def Get_def Let_def request_succeeded_def
           checkResponse_None_iff dest: checkResponse_SomeD split: option.splits)

lemma bad_request_facts:
  "\<not> IsSuccessState bad_request_response"
  \<open>json_Unmarshal (example_library a) (Bytes bad_request_response)
     = Inr [''message'' \<mapsto> JString ''Bad Request'',
            ''details'' \<mapsto> JString ''Invalid input provided'']\<close>
  "bad_request_response\<lparr>Request_Method := ''GET'', Request_URL := ''https://gitness.com/api/v1/test''\<rparr>
     = bad_request_response"
  by (simp_all add: IsSuccessState_def bad_request_response_def example_library_def
      example_Unmarshal_def)

lemma bad_request_checked:
  "checkResponse (example_library a) bad_request_response
     = Some \<lparr>Error_Response = Some bad_request_response, Message = ''Bad Request'',
             Details = ''Invalid input provided''\<rparr>"
  by (simp add: checkResponse_error bad_request_facts body_string_def)

lemma body_string_empty:
  "json_Unmarshal L (Bytes r) = Inl err
   \<or> json_Unmarshal L (Bytes r) = Inr m
       \<and> (m key = Some (JString []) \<or> (\<forall>s. m key \<noteq> Some (JString s)))
   \<Longrightarrow> body_string L r key = []"
  using body_string_invalid body_string_no_string body_string_present by metis

lemma no_message_facts:
  "\<not> IsSuccessState no_message_response"
  "json_Unmarshal (example_library a) (Bytes no_message_response) = Inr Map.empty"
  by (simp_all add: IsSuccessState_def no_message_response_def example_library_def
      example_Unmarshal_def)

lemma no_message_checked:
  "checkResponse (example_library a) no_message_response
     = Some \<lparr>Error_Response = Some no_message_response,
             Message = ''HTTP 500: Internal Server Error'', Details = []\<rparr>"
proof -
  have "body_string (example_library a) no_message_response key = []" for key
    by (simp add: body_string_def no_message_facts)
  moreover have "status_message (example_library a) no_message_response
                   = ''HTTP 500: Internal Server Error''"
    by (simp add: status_message_def example_library_def no_message_response_def Sprintf_d_def
        digits_of.simps)
  ultimately show ?thesis
    using no_message_facts(1) by (simp add: checkResponse_error)
qed

text \<open>
  C1, amended. \<open>checkResponse\<close> returns nil for a response in the success state. For any
  other response it returns an \<open>ErrorResponse\<close> that holds the response. Its \<open>Message\<close> is
  the string under \<open>message\<close> of the JSON body when that string is not empty, and
  \<open>HTTP <status code>: <status text>\<close> when the string is empty, when there is no string
  under \<open>message\<close>, and when the body is not JSON. Its \<open>Details\<close> is the string under
  \<open>details\<close> of the JSON body, and empty when there is none or the body is not JSON. Each
  of \<open>Get\<close>, \<open>Post\<close>, \<open>Put\<close>, \<open>Patch\<close> and \<open>Delete\<close>, once the URL is built, returns, and
  returns an error exactly when the request failed in the library or the status is not
  2xx.
\<close>

theorem checkResponse_reports:
  "(IsSuccessState r \<longrightarrow> checkResponse L r = None)
   \<and> (\<not> IsSuccessState r \<longrightarrow>
        checkResponse L r =
          Some \<lparr>Error_Response = Some r,
                Message =
                  (if body_string L r ''message'' = []
                   then ''HTTP '' @ Sprintf_d (StatusCode r) @ '': ''
                        @ http_StatusText L (StatusCode r)
                   else body_string L r ''message''),
                Details = body_string L r ''details''\<rparr>)
   \<and> (\<not> IsSuccessState r \<longrightarrow>
        (\<exists>e. checkResponse L r = Some e
           \<and> (json_Unmarshal L (Bytes r) = Inr m \<and> m ''message'' = Some (JString msg) \<and> msg \<noteq> []
                \<longrightarrow> Message e = msg)
           \<and> (json_Unmarshal L (Bytes r) = Inl err
               \<or> json_Unmarshal L (Bytes r) = Inr m
                   \<and> (m ''message'' = Some (JString [])
                       \<or> (\<forall>s. m ''message'' \<noteq> Some (JString s)))
                \<longrightarrow> Message e = ''HTTP '' @ Sprintf_d (StatusCode r) @ '': ''
                                  @ http_StatusText L (StatusCode r))
           \<and> (json_Unmarshal L (Bytes r) = Inr m \<and> m ''details'' = Some (JString d)
                \<longrightarrow> Details e = d)
           \<and> (json_Unmarshal L (Bytes r) = Inl err
               \<or> json_Unmarshal L (Bytes r) = Inr m \<and> (\<forall>s. m ''details'' \<noteq> Some (JString s))
                \<longrightarrow> Details e = [])))
   \<and> (buildFullURL L c path = Inr fullURL \<longrightarrow>
        returns_error_iff_failed (Get L c ctx' path result)
          (req_send L (client c) ''GET'' fullURL
             ((R (client c))\<lparr>ctx := Some ctx', SuccessResult := result\<rparr>))
        \<and> returns_error_iff_failed (Post L c ctx' path body result)
            (req_send L (client c) ''POST'' fullURL (body_request c ctx' body result))
        \<and> returns_error_iff_failed (Put L c ctx' path body result)
            (req_send L (client c) ''PUT'' fullURL (body_request c ctx' body result))
        \<and> returns_error_iff_failed (Patch L c ctx' path body result)
            (req_send L (client c) ''PATCH'' fullURL (body_request c ctx' body result))
        \<and> returns_error_iff_failed (Delete L c ctx' path body)
            (req_send L (client c) ''DELETE'' fullURL (body_request c ctx' body None)))"
proof (intro conjI impI)
  show "checkResponse L r = None" if "IsSuccessState r"
    using that by (rule checkResponse_success)
  show "checkResponse L r =
          Some \<lparr>Error_Response = Some r,
                Message =
                  (if body_string L r ''message'' = []
                   then ''HTTP '' @ Sprintf_d (StatusCode r) @ '': ''
                        @ http_StatusText L (StatusCode r)
                   else body_string L r ''message''),
                Details = body_string L r ''details''\<rparr>" if "\<not> IsSuccessState r"
    using checkResponse_error[OF that, of L] by (simp add: status_message_def)
  show "\<exists>e. checkResponse L r = Some e
           \<and> (json_Unmarshal L (Bytes r) = Inr m \<and> m ''message'' = Some (JString msg) \<and> msg \<noteq> []
                \<longrightarrow> Message e = msg)
           \<and> (json_Unmarshal L (Bytes r) = Inl err
               \<or> json_Unmarshal L (Bytes r) = Inr m
                   \<and> (m ''message'' = Some (JString [])
                       \<or> (\<forall>s. m ''message'' \<noteq> Some (JString s)))
                \<longrightarrow> Message e = ''HTTP '' @ Sprintf_d (StatusCode r) @ '': ''
                                  @ http_StatusText L (StatusCode r))
           \<and> (json_Unmarshal L (Bytes r) = Inr m \<and> m ''details'' = Some (JString d)
                \<longrightarrow> Details e = d)
           \<and> (json_Unmarshal L (Bytes r) = Inl err
               \<or> json_Unmarshal L (Bytes r) = Inr m \<and> (\<forall>s. m ''details'' \<noteq> Some (JString s))
                \<longrightarrow> Details e = [])" if "\<not> IsSuccessState r"
  proof (intro exI conjI impI)
    show "checkResponse L r =
          Some \<lparr>Error_Response = Some r,
                Message = (if body_string L r ''message'' = [] then status_message L r
                           else body_string L r ''message''),
                Details = body_string L r ''details''\<rparr>"
      by (rule checkResponse_error[OF that])
    show "Message \<lparr>Error_Response = Some r,
                Message = (if body_string L r ''message'' = [] then status_message L r
                           else body_string L r ''message''),
                Details = body_string L r ''details''\<rparr> = msg"
      if "json_Unmarshal L (Bytes r) = Inr m \<and> m ''message'' = Some (JString msg) \<and> msg \<noteq> []"
      using that by (simp add: body_string_present)
    show "Message \<lparr>Error_Response = Some r,
                Message = (if body_string L r ''message'' = [] then status_message L r
                           else body_string L r ''message''),
                Details = body_string L r ''details''\<rparr>
            = ''HTTP '' @ Sprintf_d (StatusCode r) @ '': '' @ http_StatusText L (StatusCode r)"
      if "json_Unmarshal L (Bytes r) = Inl err
               \<or> json_Unmarshal L (Bytes r) = Inr m
                   \<and> (m ''message'' = Some (JString [])
                       \<or> (\<forall>s. m ''message'' \<noteq> Some (JString s)))"
      using body_string_empty[OF that] by (simp add: status_message_def)
    show "Details \<lparr>Error_Response = Some r,
                Message = (if body_string L r ''message'' = [] then status_message L r
                           else body_string L r ''message''),
                Details = body_string L r ''details''\<rparr> = d"
      if "json_Unmarshal L (Bytes r) = Inr m \<and> m ''details'' = Some (JString d)"
      using that by (simp add: body_string_present)
    show "Details \<lparr>Error_Response = Some r,
                Message = (if body_string L r ''message'' = [] then status_message L r
                           else body_string L r ''message''),
                Details = body_string L r ''details''\<rparr> = []"
      if "json_Unmarshal L (Bytes r) = Inl err
               \<or> json_Unmarshal L (Bytes r) = Inr m \<and> (\<forall>s. m ''details'' \<noteq> Some (JString s))"
      using that body_string_invalid body_string_no_string by (metis ErrorResponse.select_convs(3))
  qed
next
  assume u: "buildFullURL L c path = Inr fullURL"
  show "returns_error_iff_failed (Get L c ctx' path result)
          (req_send L (client c) ''GET'' fullURL
             ((R (client c))\<lparr>ctx := Some ctx', SuccessResult := result\<rparr>))"
    using u by (rule Get_error_iff)
  show "returns_error_iff_failed (Post L c ctx' path body result)
            (req_send L (client c) ''POST'' fullURL (body_request c ctx' body result))"
    using u by (simp add: Post_def finish_error_iff)
  show "returns_error_iff_failed (Put L c ctx' path body result)
            (req_send L (client c) ''PUT'' fullURL (body_request c ctx' body result))"
    using u by (simp add: Put_def finish_error_iff)
  show "returns_error_iff_failed (Patch L c ctx' path body result)
            (req_send L (client c) ''PATCH'' fullURL (body_request c ctx' body result))"
    using u by (simp add: Patch_def finish_error_iff)
  show "returns_error_iff_failed (Delete L c ctx' path body)
            (req_send L (client c) ''DELETE'' fullURL (body_request c ctx' body None))"
    using u by (simp add: Delete_def finish_error_iff)
qed

theorem checkResponse_reports_witness:
  \<open>IsSuccessState example_response
   \<and> checkResponse (example_library (Delivered example_response)) example_response = None
   \<and> \<not> IsSuccessState bad_request_response
   \<and> json_Unmarshal (example_library (Delivered bad_request_response)) (Bytes bad_request_response)
       = Inr [''message'' \<mapsto> JString ''Bad Request'',
              ''details'' \<mapsto> JString ''Invalid input provided'']
   \<and> checkResponse (example_library (Delivered bad_request_response)) bad_request_response
       = Some \<lparr>Error_Response = Some bad_request_response, Message = ''Bad Request'',
               Details = ''Invalid input provided''\<rparr>
   \<and> \<not> IsSuccessState no_message_response
   \<and> json_Unmarshal (example_library (Delivered no_message_response)) (Bytes no_message_response)
       = Inr Map.empty
   \<and> checkResponse (example_library (Delivered no_message_response)) no_message_response
       = Some \<lparr>Error_Response = Some no_message_response,
               Message = ''HTTP 500: Internal Server Error'', Details = []\<rparr>
   \<and> buildFullURL (example_library (Delivered bad_request_response)) example_Client ''test''
       = Inr ''https://gitness.com/api/v1/test''
   \<and> Get (example_library (Delivered bad_request_response)) example_Client (Context 0) ''test'' None
       = Inr (example_Client, Some (Response_of (Some bad_request_response)),
              Some (APIError \<lparr>Error_Response = Some bad_request_response, Message = ''Bad Request'',
                               Details = ''Invalid input provided''\<rparr>))
   \<and> \<not> request_succeeded (Delivered bad_request_response)\<close>
proof -
  let ?L = "example_library (Delivered bad_request_response)"
  have ok: "IsSuccessState example_response"
    by (simp add: IsSuccessState_def example_response_def)
  have get: "Get ?L example_Client (Context 0) ''test'' None
       = Inr (example_Client, Some (Response_of (Some bad_request_response)),
              Some (APIError \<lparr>Error_Response = Some bad_request_response, Message = ''Bad Request'',
                               Details = ''Invalid input provided''\<rparr>))"
    by (simp add: Get_def example_test_URL example_send bad_request_facts bad_request_checked)
  have nr: "\<not> request_succeeded (Delivered bad_request_response)"
    by (simp add: request_succeeded_def bad_request_facts)
  show ?thesis
    using ok get nr bad_request_facts(1) bad_request_facts(2)[of "Delivered bad_request_response"]
      bad_request_checked example_test_URL
      no_message_facts(1) no_message_facts(2)[of "Delivered no_message_response"]
      no_message_checked[of "Delivered no_message_response"]
      checkResponse_reports[where r = example_response
        and L = "example_library (Delivered example_response)"]
      checkResponse_reports[where r = no_message_response
        and L = "example_library (Delivered no_message_response)" and m = Map.empty]
      checkResponse_reports[where r = bad_request_response and L = ?L
        and m = "[''message'' \<mapsto> JString ''Bad Request'',
                  ''details'' \<mapsto> JString ''Invalid input provided'']"
        and msg = "''Bad Request''" and d = "''Invalid input provided''"
        and c = example_Client and path = "''test''"
        and fullURL = "''https://gitness.com/api/v1/test''" and ctx' = "Context 0"
        and result = None and body = None]
    by simp
qed

text \<open>
  The claim as first stated has the \<open>Message\<close> equal to the string under \<open>message\<close>
  whenever there is one. An empty string there is replaced.
\<close>

theorem checkResponse_empty_message_counterexample:
  "\<not> IsSuccessState empty_message_response
   \<and> json_Unmarshal (example_library (Delivered empty_message_response))
         (Bytes empty_message_response)
       = Inr [''message'' \<mapsto> JString []]
   \<and> checkResponse (example_library (Delivered empty_message_response)) empty_message_response
       = Some \<lparr>Error_Response = Some empty_message_response, Message = ''HTTP 400: Bad Request'',
               Details = []\<rparr>
   \<and> map_option Message
         (checkResponse (example_library (Delivered empty_message_response)) empty_message_response)
       \<noteq> Some []"
proof -
  let ?L = "example_library (Delivered empty_message_response)"
  have s: "\<not> IsSuccessState empty_message_response"
    by (simp add: IsSuccessState_def empty_message_response_def)
  have j: "json_Unmarshal ?L (Bytes empty_message_response) = Inr [''message'' \<mapsto> JString []]"
    by (simp add: example_library_def example_Unmarshal_def empty_message_response_def)
  have "body_string ?L empty_message_response key = []" for key
    by (simp add: body_string_def j)
  moreover have "status_message ?L empty_message_response = ''HTTP 400: Bad Request''"
    by (simp add: status_message_def example_library_def empty_message_response_def Sprintf_d_def
        digits_of.simps)
  ultimately have "checkResponse ?L empty_message_response
       = Some \<lparr>Error_Response = Some empty_message_response, Message = ''HTTP 400: Bad Request'',
               Details = []\<rparr>"
    using s by (simp add: checkResponse_error)
  then show ?thesis
    using s j by simp
qed

subsection \<open>Client construction\<close>

lemma apply_options_succeed:
  "(\<forall>option \<in> set options. \<forall>c. \<exists>c'. option c = Inr c') \<Longrightarrow> \<exists>c'. apply_options options c = Inr c'"
proof (induction options arbitrary: c)
  case Nil
  show ?case by simp
next
  case (Cons option options)
  then obtain c1 where "option c = Inr c1"
    by (meson list.set_intros(1))
  with Cons show ?case by simp
qed

lemma NewClient_services:
  "NewClient h token' options = Inr (p, h') \<Longrightarrow>
   p = length h \<and> length h' = Suc (length h) \<and> take (length h) h' = h \<and> services_point_to (h' ! p) p"
  by (auto simp: NewClient_def Let_def services_point_to_def nth_append split: sum.splits)

lemma NewClient_succeeds:
  "(\<forall>option \<in> set options. \<forall>c. \<exists>c'. option c = Inr c') \<Longrightarrow> \<exists>p h'. NewClient h token' options = Inr (p, h')"
proof -
  assume a: "\<forall>option \<in> set options. \<forall>c. \<exists>c'. option c = Inr c'"
  show ?thesis
    unfolding NewClient_def Let_def
    using apply_options_succeed[OF a] by (metis (no_types, lifting) sum.simps(6))
qed

text \<open>
  C5. When every option succeeds, \<open>NewClient\<close> returns a client. Whenever it returns a
  client, at address \<open>p\<close> of the new store, each of the twenty-one service fields of that
  client is non-nil and its \<open>client\<close> pointer is \<open>p\<close>.
\<close>

theorem NewClient_services_share_client:
  "((\<forall>option \<in> set options. \<forall>c. \<exists>c'. option c = Inr c')
      \<longrightarrow> (\<exists>p h'. NewClient h token' options = Inr (p, h')))
   \<and> (NewClient h token' options = Inr (p, h')
      \<longrightarrow> p = length h \<and> p < length h' \<and> services_point_to (h' ! p) p)"
  using NewClient_succeeds[of options h token'] NewClient_services[of h token' options p h']
  by auto

theorem NewClient_services_share_client_witness:
  "\<exists>h'. NewClient [] ''test-token'' [WithTimeout 30000000000, WithDebug, WithRetry 3] = Inr (0, h')
        \<and> length h' = 1 \<and> services_point_to (h' ! 0) 0"
proof -
  let ?options = "[WithTimeout 30000000000, WithDebug, WithRetry 3]"
  have succeed: "\<forall>option \<in> set ?options. \<forall>c. \<exists>c'. option c = Inr c'"
    by (simp add: WithTimeout_def WithDebug_def WithRetry_def)
  note share = NewClient_services_share_client[of ?options "[]" "''test-token''"]
  from share[THEN conjunct1] succeed
  obtain p h' where new: "NewClient [] ''test-token'' ?options = Inr (p, h')"
    by blast
  from share[of p h', THEN conjunct2] new
  have "p = 0" "services_point_to (h' ! p) p"
    by auto
  moreover have "length h' = 1"
    using NewClient_services[OF new] by simp
  ultimately show ?thesis
    using new by auto
qed

lemma apply_options_append:
  "apply_options (xs @ ys) c =
     (case apply_options xs c of Inl err \<Rightarrow> Inl err | Inr c' \<Rightarrow> apply_options ys c')"
  by (induction xs arbitrary: c) (auto split: sum.splits)

text \<open>
  C10. For \<open>n \<le> 0\<close> the option \<open>WithRetry(n)\<close> returns no error and leaves the client as
  it is, so \<open>NewClient\<close> with the option anywhere among its options returns what it returns
  without it. For \<open>n > 0\<close> the option sets the common retry count of the HTTP client to
  \<open>n\<close> and changes nothing else.
\<close>

theorem WithRetry_nonpositive_noop:
  "(n \<le> 0 \<longrightarrow> WithRetry n c = Inr c
        \<and> NewClient h token' (before @ WithRetry n # after) = NewClient h token' (before @ after))
   \<and> (n > 0 \<longrightarrow> WithRetry n c = Inr (c\<lparr>client := (client c)\<lparr>CommonRetryCount := Some n\<rparr>\<rparr>))"
proof (intro conjI impI)
  assume n: "n \<le> 0"
  then show w: "WithRetry n c = Inr c" for c
    by (simp add: WithRetry_def)
  have "apply_options (before @ WithRetry n # after) c0 = apply_options (before @ after) c0" for c0
    by (simp add: apply_options_append w split: sum.splits)
  then show "NewClient h token' (before @ WithRetry n # after) = NewClient h token' (before @ after)"
    by (simp add: NewClient_def)
next
  assume "n > 0"
  then show "WithRetry n c = Inr (c\<lparr>client := (client c)\<lparr>CommonRetryCount := Some n\<rparr>\<rparr>)"
    by (simp add: WithRetry_def)
qed

theorem WithRetry_nonpositive_noop_witness:
  "(0::int) \<le> 0 \<and> WithRetry 0 example_Client = Inr example_Client
   \<and> NewClient [] ''test-token'' ([WithDebug] @ WithRetry 0 # [WithTimeout 30000000000])
       = NewClient [] ''test-token'' ([WithDebug] @ [WithTimeout 30000000000])
   \<and> (3::int) > 0
   \<and> WithRetry 3 example_Client
       = Inr (example_Client\<lparr>client := (client example_Client)\<lparr>CommonRetryCount := Some 3\<rparr>\<rparr>)"
  using WithRetry_nonpositive_noop[of 0 example_Client "[]" "''test-token''" "[WithDebug]"
      "[WithTimeout 30000000000]"]
    WithRetry_nonpositive_noop[of 3 example_Client]
  by simp

subsection \<open>Decimal text\<close>

text \<open>\<open>strconv.Atoi\<close> reads the text that \<open>%d\<close> writes for an \<open>int\<close> back as that \<open>int\<close>.\<close>

lemma digit_val_digit: "d < 10 \<Longrightarrow> digit_val (''0123456789'' ! d) = Some d"
proof -
  assume "d < 10"
  then have "d \<in> set [0..<10]" by simp
  then show ?thesis
    by (auto simp: upt_rec digit_val_def)
qed

lemma parse_digits_append:
  "parse_digits a (xs @ ys) =
     (case parse_digits a xs of None \<Rightarrow> None | Some b \<Rightarrow> parse_digits b ys)"
  by (induction xs arbitrary: a) (auto split: option.splits)

lemma parse_digits_digits_of:
  "parse_digits a (digits_of n) = Some (a * 10 ^ length (digits_of n) + n)"
proof (induction n arbitrary: a rule: digits_of.induct)
  case (1 n)
  show ?case
  proof (cases "n < 10")
    case True
    then show ?thesis
      by (subst (1 2) digits_of.simps) (simp add: digit_val_digit)
  next
    case False
    have m: "n mod 10 < 10" by simp
    have "parse_digits a (digits_of n)
            = parse_digits a (digits_of (n div 10) @ [''0123456789'' ! (n mod 10)])"
      using False by (subst digits_of.simps) simp
    also have "\<dots> = Some ((a * 10 ^ length (digits_of (n div 10)) + n div 10) * 10 + n mod 10)"
      using 1[OF False, of a] by (simp add: parse_digits_append digit_val_digit[OF m])
    also have "\<dots> = Some (a * 10 ^ length (digits_of n) + n)"
      using False by (subst (2) digits_of.simps) (simp add: algebra_simps)
    finally show ?thesis .
  qed
qed

lemma digits_of_not_Nil: "digits_of n \<noteq> []"
  by (subst digits_of.simps) simp

lemma hd_digits_of_digit: "digit_val (hd (digits_of n)) \<noteq> None"
proof (induction n rule: digits_of.induct)
  case (1 n)
  show ?case
  proof (cases "n < 10")
    case True
    then show ?thesis
      by (subst digits_of.simps) (simp add: digit_val_digit)
  next
    case False
    then show ?thesis
      using 1[OF False] digits_of_not_Nil[of "n div 10"]
      by (subst digits_of.simps) simp
  qed
qed

lemma Atoi_Sprintf_d:
  assumes "- (2 ^ 63) \<le> n" "n < 2 ^ 63"
  shows "Atoi (Sprintf_d n) = Some n"
proof (cases "n < 0")
  case True
  have "parse_digits 0 (digits_of (nat (- n))) = Some (nat (- n))"
    by (simp add: parse_digits_digits_of)
  then show ?thesis
    using True assms by (simp add: Atoi_def Sprintf_d_def digits_of_not_Nil intSize_def)
next
  case False
  obtain c cs where d: "digits_of (nat n) = c # cs"
    using digits_of_not_Nil[of "nat n"] by (cases "digits_of (nat n)") auto
  have "digit_val c \<noteq> None"
    using hd_digits_of_digit[of "nat n"] d by simp
  then have sign: "c \<noteq> CHR ''-''" "c \<noteq> CHR ''+''"
    by (auto simp: digit_val_def)
  have "parse_digits 0 (c # cs) = Some (nat n)"
    using parse_digits_digits_of[of 0 "nat n"] d by simp
  then show ?thesis
    using False assms sign d by (simp add: Atoi_def Sprintf_d_def intSize_def del: parse_digits.simps)
qed

subsection \<open>Query parameters\<close>

lemma SetQueryParam_fields:
  "ctx (SetQueryParam key v req) = ctx req"
  "SuccessResult (SetQueryParam key v req) = SuccessResult req"
  "BodyJsonMarshal (SetQueryParam key v req) = BodyJsonMarshal req"
  "QueryParams (SetQueryParam key v req) k = (if k = key then Some [v] else QueryParams req k)"
  by (simp_all add: SetQueryParam_def)

lemma buildQueryParams_fields:
  "ctx (buildQueryParams req opt) = ctx req"
  "SuccessResult (buildQueryParams req opt) = SuccessResult req"
  "BodyJsonMarshal (buildQueryParams req opt) = BodyJsonMarshal req"
  by (simp_all add: buildQueryParams_def Let_def SetQueryParam_fields split: option.splits)

lemma buildQueryParams_key:
  "QueryParams (buildQueryParams req (Some opt)) key =
     (if key = ''query'' then (case opt_Query opt of Some s \<Rightarrow> Some [s] | None \<Rightarrow> QueryParams req key)
      else if key = ''order'' then (case opt_Order opt of Some s \<Rightarrow> Some [s] | None \<Rightarrow> QueryParams req key)
      else if key = ''sort'' then (case opt_Sort opt of Some s \<Rightarrow> Some [s] | None \<Rightarrow> QueryParams req key)
      else if key = ''limit'' then (case opt_Limit opt of Some n \<Rightarrow> Some [Sprintf_d n] | None \<Rightarrow> QueryParams req key)
      else if key = ''page'' then (case opt_Page opt of Some n \<Rightarrow> Some [Sprintf_d n] | None \<Rightarrow> QueryParams req key)
      else QueryParams req key)"
  by (simp add: buildQueryParams_def Let_def SetQueryParam_fields split: option.splits)

text \<open>
  C6. \<open>buildQueryParams\<close> with nil options leaves the request as it is. With options it
  changes nothing but the query parameters, and there: \<open>page\<close> and \<open>limit\<close> become the
  decimal text of the integers that \<open>Page\<close> and \<open>Limit\<close> point to, \<open>sort\<close>, \<open>order\<close> and
  \<open>query\<close> the strings that \<open>Sort\<close>, \<open>Order\<close> and \<open>Query\<close> point to, each only when the
  field is non-nil; a parameter whose field is nil, and every other parameter, is as
  before.
\<close>

theorem buildQueryParams_sets:
  "buildQueryParams req None = req
   \<and> ctx (buildQueryParams req (Some opt)) = ctx req
   \<and> SuccessResult (buildQueryParams req (Some opt)) = SuccessResult req
   \<and> BodyJsonMarshal (buildQueryParams req (Some opt)) = BodyJsonMarshal req
   \<and> QueryParams (buildQueryParams req (Some opt)) key =
       (if key = ''page'' then
          (case opt_Page opt of Some n \<Rightarrow> Some [Sprintf_d n] | None \<Rightarrow> QueryParams req key)
        else if key = ''limit'' then
          (case opt_Limit opt of Some n \<Rightarrow> Some [Sprintf_d n] | None \<Rightarrow> QueryParams req key)
        else if key = ''sort'' then
          (case opt_Sort opt of Some s \<Rightarrow> Some [s] | None \<Rightarrow> QueryParams req key)
        else if key = ''order'' then
          (case opt_Order opt of Some s \<Rightarrow> Some [s] | None \<Rightarrow> QueryParams req key)
        else if key = ''query'' then
          (case opt_Query opt of Some s \<Rightarrow> Some [s] | None \<Rightarrow> QueryParams req key)
        else QueryParams req key)"
  by (simp add: buildQueryParams_fields buildQueryParams_key) (simp add: buildQueryParams_def)

theorem buildQueryParams_sets_witness:
  "QueryParams (buildQueryParams (R req_C) (Some example_options)) ''page'' = Some [''1'']
   \<and> QueryParams (buildQueryParams (R req_C) (Some example_options)) ''limit'' = Some [''10'']
   \<and> QueryParams (buildQueryParams (R req_C) (Some example_options)) ''sort'' = None
   \<and> QueryParams (buildQueryParams (R req_C) (Some example_options)) ''order'' = None
   \<and> QueryParams (buildQueryParams (R req_C) (Some example_options)) ''query'' = Some [''go'']
   \<and> QueryParams (buildQueryParams (R req_C) (Some example_options)) ''per_page'' = None
   \<and> buildQueryParams (R req_C) None = R req_C"
proof -
  have d: "Sprintf_d 1 = ''1''" "Sprintf_d 10 = ''10''"
    by (simp_all add: Sprintf_d_def digits_of.simps)
  show ?thesis
    using buildQueryParams_sets[of "R req_C" example_options "''page''"]
      buildQueryParams_sets[of "R req_C" example_options "''limit''"]
      buildQueryParams_sets[of "R req_C" example_options "''sort''"]
      buildQueryParams_sets[of "R req_C" example_options "''order''"]
      buildQueryParams_sets[of "R req_C" example_options "''query''"]
      buildQueryParams_sets[of "R req_C" example_options "''per_page''"]
    by (simp add: example_options_def R_def d)
qed

subsection \<open>The client across a request\<close>

lemma same_Client_state_client: "same_Client_state c (c\<lparr>client := rc\<rparr>)"
  by (simp add: same_Client_state_def)

lemma finish_frame:
  "finish L c sent = Inr (c', resp, err) \<Longrightarrow> same_Client_state c c'"
  by (auto simp: finish_def same_Client_state_client split: prod.splits round_trip.splits option.splits)

lemma Get_frame:
  "Get L c ctx' path result = Inr (c', resp, err) \<Longrightarrow> same_Client_state c c'"
  by (auto simp: Get_def Let_def same_Client_state_client
      split: sum.splits prod.splits round_trip.splits option.splits)

lemma performListRequest_frame:
  "performListRequest L c ctx' path opt result = Inr (c', resp, err) \<Longrightarrow> same_Client_state c c'"
  by (auto simp: performListRequest_def Let_def same_Client_state_client
      split: sum.splits prod.splits round_trip.splits option.splits)

text \<open>
  C7. When \<open>Get\<close>, \<open>Post\<close>, \<open>Put\<close>, \<open>Patch\<close>, \<open>Delete\<close>, \<open>DeleteWithResponse\<close> or
  \<open>performListRequest\<close> returns, the client's \<open>baseURL\<close>, \<open>token\<close> and service pointers are
  what they were before the call, whatever the HTTP library did to its own client.
\<close>

theorem helpers_leave_Client_unchanged:
  "(Get L c ctx' path result = Inr (c', resp, err) \<longrightarrow> same_Client_state c c')
   \<and> (Post L c ctx' path body result = Inr (c', resp, err) \<longrightarrow> same_Client_state c c')
   \<and> (Put L c ctx' path body result = Inr (c', resp, err) \<longrightarrow> same_Client_state c c')
   \<and> (Patch L c ctx' path body result = Inr (c', resp, err) \<longrightarrow> same_Client_state c c')
   \<and> (Delete L c ctx' path body = Inr (c', resp, err) \<longrightarrow> same_Client_state c c')
   \<and> (DeleteWithResponse L c ctx' path body result = Inr (c', resp, err)
        \<longrightarrow> same_Client_state c c')
   \<and> (performListRequest L c ctx' path opt result = Inr (c', resp, err)
        \<longrightarrow> same_Client_state c c')"
proof (intro conjI impI)
  show "same_Client_state c c'" if "Get L c ctx' path result = Inr (c', resp, err)"
    using that by (rule Get_frame)
  show "same_Client_state c c'" if "Post L c ctx' path body result = Inr (c', resp, err)"
    using that by (auto simp: Post_def split: sum.splits dest: finish_frame)
  show "same_Client_state c c'" if "Put L c ctx' path body result = Inr (c', resp, err)"
    using that by (auto simp: Put_def split: sum.splits dest: finish_frame)
  show "same_Client_state c c'" if "Patch L c ctx' path body result = Inr (c', resp, err)"
    using that by (auto simp: Patch_def split: sum.splits dest: finish_frame)
  show "same_Client_state c c'" if "Delete L c ctx' path body = Inr (c', resp, err)"
    using that by (auto simp: Delete_def split: sum.splits dest: finish_frame)
  show "same_Client_state c c'" if "DeleteWithResponse L c ctx' path body result = Inr (c', resp, err)"
    using that by (auto simp: DeleteWithResponse_def split: sum.splits dest: finish_frame)
  show "same_Client_state c c'" if "performListRequest L c ctx' path opt result = Inr (c', resp, err)"
    using that by (rule performListRequest_frame)
qed

theorem helpers_leave_Client_unchanged_witness:
  "Get (example_library (Delivered example_response)) example_Client (Context 0) ''user'' None
     = Inr (example_Client,
            Some (parsePaginationHeaders (Response_of (Some (example_response
              \<lparr>Request_URL := ''https://gitness.com/api/v1/user''\<rparr>)))), None)
   \<and> Post (example_library (Delivered example_response)) example_Client (Context 0) ''user'' None None
     = Inr (example_Client,
            Some (Response_of (Some (example_response
              \<lparr>Request_Method := ''POST'', Request_URL := ''https://gitness.com/api/v1/user''\<rparr>))),
            None)
   \<and> Put (example_library (Delivered example_response)) example_Client (Context 0) ''user'' None None
     = Inr (example_Client,
            Some (Response_of (Some (example_response
              \<lparr>Request_Method := ''PUT'', Request_URL := ''https://gitness.com/api/v1/user''\<rparr>))),
            None)
   \<and> Patch (example_library (Delivered example_response)) example_Client (Context 0) ''user'' None None
     = Inr (example_Client,
            Some (Response_of (Some (example_response
              \<lparr>Request_Method := ''PATCH'', Request_URL := ''https://gitness.com/api/v1/user''\<rparr>))),
            None)
   \<and> Delete (example_library (Delivered example_response)) example_Client (Context 0) ''user'' None
     = Inr (example_Client,
            Some (Response_of (Some (example_response
              \<lparr>Request_Method := ''DELETE'', Request_URL := ''https://gitness.com/api/v1/user''\<rparr>))),
            None)
   \<and> DeleteWithResponse (example_library (Delivered example_response)) example_Client (Context 0)
        ''user'' None None
     = Inr (example_Client,
            Some (Response_of (Some (example_response
              \<lparr>Request_Method := ''DELETE'', Request_URL := ''https://gitness.com/api/v1/user''\<rparr>))),
            None)
   \<and> performListRequest (example_library (Delivered example_response)) example_Client (Context 0)
        ''user'' None None
     = Inr (example_Client,
            Some (parsePaginationHeaders (Response_of (Some (example_response
              \<lparr>Request_URL := ''https://gitness.com/api/v1/user''\<rparr>)))), None)
   \<and> same_Client_state example_Client example_Client"
proof -
  let ?L = "example_library (Delivered example_response)"
  let ?get = "Some (parsePaginationHeaders (Response_of (Some (example_response
              \<lparr>Request_URL := ''https://gitness.com/api/v1/user''\<rparr>))))"
  let ?sent = "\<lambda>method. Some (Response_of (Some (example_response
              \<lparr>Request_Method := method, Request_URL := ''https://gitness.com/api/v1/user''\<rparr>)))"
  have u: "buildFullURL ?L example_Client ''user'' = Inr ''https://gitness.com/api/v1/user''"
    unfolding example_buildFullURL by code_simp
  have ok: "IsSuccessState (example_response\<lparr>Request_Method := m, Request_URL := u\<rparr>)" for m u
    by (simp add: IsSuccessState_def example_response_def)
  have ok': "IsSuccessState (example_response\<lparr>Request_URL := u\<rparr>)" for u
    by (simp add: IsSuccessState_def example_response_def)
  have m: "example_response\<lparr>Request_Method := ''GET'', Request_URL := u\<rparr>
             = example_response\<lparr>Request_URL := u\<rparr>" for u
    by (simp add: example_response_def)
  have c: "example_Client\<lparr>client := client example_Client\<rparr> = example_Client"
    by simp
  have get: "Get ?L example_Client (Context 0) ''user'' None = Inr (example_Client, ?get, None)"
    by (simp add: Get_def u example_send Let_def checkResponse_success ok' m c)
  have list: "performListRequest ?L example_Client (Context 0) ''user'' None None
                = Inr (example_Client, ?get, None)"
    by (simp add: performListRequest_def u example_send Let_def checkResponse_success ok' m c)
  have post: "Post ?L example_Client (Context 0) ''user'' None None
                = Inr (example_Client, ?sent ''POST'', None)"
    by (simp add: Post_def u example_send example_finish ok c)
  have put: "Put ?L example_Client (Context 0) ''user'' None None
                = Inr (example_Client, ?sent ''PUT'', None)"
    by (simp add: Put_def u example_send example_finish ok c)
  have patch: "Patch ?L example_Client (Context 0) ''user'' None None
                = Inr (example_Client, ?sent ''PATCH'', None)"
    by (simp add: Patch_def u example_send example_finish ok c)
  have delete: "Delete ?L example_Client (Context 0) ''user'' None
                = Inr (example_Client, ?sent ''DELETE'', None)"
    by (simp add: Delete_def u example_send example_finish ok c)
  have deletew: "DeleteWithResponse ?L example_Client (Context 0) ''user'' None None
                = Inr (example_Client, ?sent ''DELETE'', None)"
    by (simp add: DeleteWithResponse_def u example_send example_finish ok c)
  have "same_Client_state example_Client example_Client"
    using get
      helpers_leave_Client_unchanged[where L = ?L and c = example_Client and ctx' = "Context 0"
        and path = "''user''" and result = None and c' = example_Client and resp = ?get
        and err = None]
    by simp
  then show ?thesis
    using get list post put patch delete deletew
      helpers_leave_Client_unchanged[where L = ?L and c = example_Client and ctx' = "Context 0"
        and path = "''user''" and result = None and body = None and opt = None
        and c' = example_Client and resp = "?sent ''DELETE''" and err = None]
    by simp
qed

subsection \<open>Identifiers in the request URL\<close>

text \<open>
  C3, at the input of the package's own test \<open>TestURLEncodingForRepoPath\<close>. With the
  default configuration, \<open>ListBranches\<close> with the repository path \<open>ci/demo\<close> sends its
  request to \<open>.../repos/ci/demo/branches\<close>, and \<open>GetBranch\<close> with the branch
  \<open>feature/test-branch\<close> to \<open>.../repos/ci/demo/branches/feature/test-branch\<close>: the
  slashes of the identifiers are in the URL as they are. \<open>GetUser\<close>, which escapes its
  identifier, sends \<open>ci/demo\<close> as the one segment \<open>ci%252Fdemo\<close>.
\<close>

theorem ListBranches_sends_slash_unescaped:
  "ListBranches (example_library (Delivered example_response)) example_Client (Context 0)
     ''ci/demo'' None
     = Inr (example_Client,
            Some (parsePaginationHeaders (Response_of (Some (example_response
              \<lparr>Request_URL := ''https://gitness.com/api/v1/repos/ci/demo/branches''\<rparr>)))),
            None)
   \<and> GetBranch (example_library (Delivered example_response)) example_Client (Context 0)
     ''ci/demo'' ''feature/test-branch''
     = Inr (example_Client,
            Some (parsePaginationHeaders (Response_of (Some (example_response
              \<lparr>Request_URL :=
                 ''https://gitness.com/api/v1/repos/ci/demo/branches/feature/test-branch''\<rparr>)))),
            None)
   \<and> GetUser (example_library (Delivered example_response)) example_Client (Context 0) ''ci/demo''
     = Inr (example_Client,
            Some (parsePaginationHeaders (Response_of (Some (example_response
              \<lparr>Request_URL := ''https://gitness.com/api/v1/users/ci%252Fdemo''\<rparr>)))),
            None)"
proof -
  let ?L = "example_library (Delivered example_response)"
  have u1: "buildFullURL ?L example_Client (ListBranches_path ''ci/demo'')
              = Inr ''https://gitness.com/api/v1/repos/ci/demo/branches''"
    unfolding example_buildFullURL by code_simp
  have u2: "buildFullURL ?L example_Client (GetBranch_path ''ci/demo'' ''feature/test-branch'')
              = Inr ''https://gitness.com/api/v1/repos/ci/demo/branches/feature/test-branch''"
    unfolding example_buildFullURL by code_simp
  have u3: "buildFullURL ?L example_Client (GetUser_path ''ci/demo'')
              = Inr ''https://gitness.com/api/v1/users/ci%252Fdemo''"
    unfolding example_buildFullURL by code_simp
  have ok: "IsSuccessState (example_response\<lparr>Request_URL := u\<rparr>)" for u
    by (simp add: IsSuccessState_def example_response_def)
  have m: "example_response\<lparr>Request_Method := ''GET'', Request_URL := u\<rparr>
             = example_response\<lparr>Request_URL := u\<rparr>" for u
    by (simp add: example_response_def)
  have c: "example_Client\<lparr>client := client example_Client\<rparr> = example_Client"
    by simp
  show ?thesis
    by (simp add: ListBranches_def performListRequest_def GetBranch_def GetUser_def Get_def u1 u2 u3
        example_send Let_def checkResponse_success ok m c)
qed

subsection \<open>The request URL\<close>

lemma validEncoded_upperhex: "n < 16 \<Longrightarrow> validEncoded_byte encodePath (upperhex n)"
proof -
  assume "n < 16"
  then have "n \<in> set [0..<16]" by simp
  then show ?thesis
    by (auto simp: upt_rec upperhex_def validEncoded_byte_def shouldEscape_def alphanum_def)
qed

lemma validEncoded_escape_byte: "list_all (validEncoded_byte encodePath) (escape_byte encodePath c)"
proof (cases "shouldEscape c encodePath")
  case True
  have lt: "(of_char c :: nat) div 16 < 16" "(of_char c :: nat) mod 16 < 16"
    using nat_of_char_less_256[of c] by arith+
  note h = validEncoded_upperhex[OF lt(1)] validEncoded_upperhex[OF lt(2)]
  have "validEncoded_byte encodePath CHR ''%''"
    by (simp add: validEncoded_byte_def)
  with True h show ?thesis
    by (simp add: escape_byte_def)
next
  case False
  then show ?thesis
    by (simp add: escape_byte_def validEncoded_byte_def)
qed

lemma validEncoded_escape: "validEncoded (escape s encodePath) encodePath"
  by (induction s) (simp_all add: validEncoded_def escape_def validEncoded_escape_byte)

lemma unescape_append:
  "unescape a = Some x \<Longrightarrow>
   unescape (a @ b) = (case unescape b of None \<Rightarrow> None | Some y \<Rightarrow> Some (x @ y))"
proof (induction a arbitrary: x rule: unescape.induct)
  case 1
  then show ?case by (simp split: option.splits)
next
  case (2 c s)
  show ?case
  proof (cases "c = CHR ''%''")
    case True
    with 2(3) obtain h l rest where s: "s = h # l # rest"
      by (cases s; cases "tl s") (auto split: list.splits)
    from 2(3) True s have hex: "ishex h \<and> ishex l"
      by (auto split: if_splits)
    from 2(3) True s hex obtain t where t: "unescape rest = Some t"
      and x: "x = char_of (unhex h * 16 + unhex l) # t"
      by (auto split: option.splits)
    from 2(1)[OF True s refl hex t] show ?thesis
      using True s hex x by (simp split: option.splits)
  next
    case False
    with 2(3) obtain t where t: "unescape s = Some t" and x: "x = c # t"
      by (auto split: option.splits)
    from 2(2)[OF False t] show ?thesis
      using False x by (simp split: option.splits)
  qed
qed

lemma unescape_EscapedPath: "unescape (EscapedPath u) = Some (Path u)"
  by (simp add: EscapedPath_def unescape_escape)

lemma validEncoded_EscapedPath: "validEncoded (EscapedPath u) encodePath"
  by (simp add: EscapedPath_def validEncoded_escape) (simp add: validEncoded_def validEncoded_byte_def)

lemma EscapedPath_URL_of_Path:
  "EscapedPath (URL_of_Path p) = (if p = ''*'' then ''*'' else escape p encodePath)"
  by (simp add: EscapedPath_def URL_of_Path_def)

lemma EscapedPath_reference:
  assumes "p = [] \<or> hd p \<noteq> CHR ''/''" "no_dot_segments p"
  shows "EscapedPath (URL_of_Path p) = [] \<or> hd (EscapedPath (URL_of_Path p)) \<noteq> CHR ''/''"
    "no_dot_segments (EscapedPath (URL_of_Path p))"
proof -
  show "EscapedPath (URL_of_Path p) = [] \<or> hd (EscapedPath (URL_of_Path p)) \<noteq> CHR ''/''"
    using assms(1) by (cases "p = []") (auto simp: EscapedPath_URL_of_Path hd_escape)
  show "no_dot_segments (EscapedPath (URL_of_Path p))"
    using assms(2) by (auto simp: EscapedPath_URL_of_Path no_dot_segments_escape)
qed

lemma buildFullURL_appended:
  assumes parse: "url_Parse L (baseURL c @ apiVersionPath @ ''/'') = Inr u"
    and u: "Opaque u = []" "OmitHost u \<longrightarrow> Host u \<noteq> [] \<or> User u \<noteq> None" "\<not> ForceQuery u"
           "RawQuery u = []" "Fragment u = []"
    and P: "EscapedPath u \<noteq> []" "hd (EscapedPath u) = CHR ''/''"
           "last (EscapedPath u) = CHR ''/''" "no_dot_segments (EscapedPath u)"
    and p: "p = [] \<or> hd p \<noteq> CHR ''/''" "no_dot_segments p"
  shows "buildFullURL L c p
           = Inr (URL_String u @ (if p = ''*'' then ''*'' else escape p encodePath))"
proof -
  define E where "E = EscapedPath u"
  define e where "e = EscapedPath (URL_of_Path p)"
  define r where "r = ResolveReference u (URL_of_Path p)"
  note R = EscapedPath_reference[OF p, folded e_def]
  note P' = P[folded E_def]
  obtain t where t: "E = CHR ''/'' # t"
    using P'(1,2) by (cases E) auto
  have uE: "unescape E = Some (Path u)"
    unfolding E_def by (rule unescape_EscapedPath)
  have ue: "unescape e = Some p"
    unfolding e_def using unescape_EscapedPath[of "URL_of_Path p"] by (simp add: URL_of_Path_def)
  have un: "unescape (E @ e) = Some (Path u @ p)"
    by (simp add: unescape_append[OF uE] ue)
  have "\<exists>t'. Path u = CHR ''/'' # t'"
    using uE unfolding t by (cases "unescape t") (auto intro: sym)
  then obtain t' where t': "Path u = CHR ''/'' # t'" ..
  have rp: "resolvePath E e = E @ e"
    by (rule resolvePath_appended[OF P' R])
  have sp: "setPath_ignore v (E @ e)
              = v\<lparr>Path := Path u @ p,
                  RawPath := (if E @ e = escape (Path u @ p) encodePath then [] else E @ e)\<rparr>"
    for v :: URL
    by (simp add: setPath_ignore_def setPath_def un)
  have fields: "Scheme r = Scheme u" "Opaque r = []" "User r = User u" "Host r = Host u"
    "Path r = Path u @ p"
    "RawPath r = (if E @ e = escape (Path u @ p) encodePath then [] else E @ e)"
    "\<not> OmitHost r" "\<not> ForceQuery r" "RawQuery r = []" "Fragment r = []"
    unfolding r_def ResolveReference_def E_def[symmetric] e_def[symmetric] rp sp
    using u by (simp_all add: URL_of_Path_def Let_def)
  have ve: "validEncoded (E @ e) encodePath"
    using validEncoded_EscapedPath[of u] validEncoded_EscapedPath[of "URL_of_Path p"]
    by (simp add: validEncoded_def E_def e_def)
  have star: "Path r \<noteq> ''*''"
    unfolding fields(5) t' by simp
  have Epr: "EscapedPath r = E @ e"
    using fields(5,6) ve un star t by (auto simp: EscapedPath_def)
  have auth: "authority_String r = authority_String u"
    using fields u(2) t' by (auto simp: authority_String_def)
  have "URL_String r = URL_String u @ e"
    unfolding URL_String_def Epr E_def[symmetric] auth Let_def
    using fields u by (simp add: t)
  then show ?thesis
    by (simp add: buildFullURL_def parse r_def e_def EscapedPath_URL_of_Path)
qed

lemma gitness_api_URL_EscapedPath: "EscapedPath gitness_api_URL = ''/api/v1/''"
  by code_simp

text \<open>
  C4, amended. Let \<open>p\<close> be a path that does not begin with a slash and has no segment
  \<open>.\<close> or \<open>..\<close>. When \<open>url.Parse\<close> reads the base URL followed by \<open>api/v1/\<close> as a URL
  \<open>u\<close> without opaque part, query and fragment, which is not of the form
  \<open>scheme:/path\<close> that omits an empty host, and whose escaped path begins and ends with a
  slash and has no segment \<open>.\<close> or \<open>..\<close>, \<open>buildFullURL(p)\<close> is the text of \<open>u\<close> followed by
  \<open>p\<close> with its bytes escaped for a path (\<open>*\<close> alone stays \<open>*\<close>). In particular, with the
  default base URL it is \<open>https://gitness.com/api/v1/\<close> followed by the escaped \<open>p\<close>.
\<close>

theorem buildFullURL_joins:
  "(url_Parse L (baseURL c @ apiVersionPath @ ''/'') = Inr u
      \<and> Opaque u = [] \<and> (OmitHost u \<longrightarrow> Host u \<noteq> [] \<or> User u \<noteq> None) \<and> \<not> ForceQuery u
      \<and> RawQuery u = [] \<and> Fragment u = []
      \<and> EscapedPath u \<noteq> [] \<and> hd (EscapedPath u) = CHR ''/'' \<and> last (EscapedPath u) = CHR ''/''
      \<and> no_dot_segments (EscapedPath u)
      \<and> (p = [] \<or> hd p \<noteq> CHR ''/'') \<and> no_dot_segments p
     \<longrightarrow> buildFullURL L c p
          = Inr (URL_String u @ (if p = ''*'' then ''*'' else escape p encodePath)))
   \<and> (baseURL c = defaultBaseURL
      \<and> url_Parse L ''https://gitness.com/api/v1/'' = Inr gitness_api_URL
      \<and> (p = [] \<or> hd p \<noteq> CHR ''/'') \<and> no_dot_segments p
     \<longrightarrow> buildFullURL L c p
          = Inr (''https://gitness.com/api/v1/'' @ (if p = ''*'' then ''*'' else escape p encodePath)))"
proof (intro conjI impI)
  assume a: "url_Parse L (baseURL c @ apiVersionPath @ ''/'') = Inr u
      \<and> Opaque u = [] \<and> (OmitHost u \<longrightarrow> Host u \<noteq> [] \<or> User u \<noteq> None) \<and> \<not> ForceQuery u
      \<and> RawQuery u = [] \<and> Fragment u = []
      \<and> EscapedPath u \<noteq> [] \<and> hd (EscapedPath u) = CHR ''/'' \<and> last (EscapedPath u) = CHR ''/''
      \<and> no_dot_segments (EscapedPath u)
      \<and> (p = [] \<or> hd p \<noteq> CHR ''/'') \<and> no_dot_segments p"
  then show "buildFullURL L c p
          = Inr (URL_String u @ (if p = ''*'' then ''*'' else escape p encodePath))"
    by (intro buildFullURL_appended) simp_all
next
  assume a: "baseURL c = defaultBaseURL
      \<and> url_Parse L ''https://gitness.com/api/v1/'' = Inr gitness_api_URL
      \<and> (p = [] \<or> hd p \<noteq> CHR ''/'') \<and> no_dot_segments p"
  then have parse: "url_Parse L (baseURL c @ apiVersionPath @ ''/'') = Inr gitness_api_URL"
    by (simp add: defaultBaseURL_def apiVersionPath_def)
  have "buildFullURL L c p
          = Inr (URL_String gitness_api_URL @ (if p = ''*'' then ''*'' else escape p encodePath))"
    using a by (intro buildFullURL_appended[OF parse])
      (simp_all add: gitness_api_URL_fields gitness_api_URL_EscapedPath no_dot_segments_def)
  then show "buildFullURL L c p
          = Inr (''https://gitness.com/api/v1/'' @ (if p = ''*'' then ''*'' else escape p encodePath))"
    by (simp only: gitness_api_URL_String)
qed

theorem buildFullURL_joins_witness:
  "baseURL example_Client = defaultBaseURL
   \<and> url_Parse (example_library (Delivered example_response)) (baseURL example_Client @ apiVersionPath @ ''/'')
       = Inr gitness_api_URL
   \<and> url_Parse (example_library (Delivered example_response)) ''https://gitness.com/api/v1/''
       = Inr gitness_api_URL
   \<and> EscapedPath gitness_api_URL = ''/api/v1/''
   \<and> no_dot_segments ''/api/v1/''
   \<and> no_dot_segments ''repos/my space/branches''
   \<and> buildFullURL (example_library (Delivered example_response)) example_Client
        ''repos/my space/branches''
       = Inr ''https://gitness.com/api/v1/repos/my%20space/branches''
   \<and> url_Parse (parses_as ''http://h/a%2Fb/api/v1/'' escaped_base_URL
                  (example_library (Delivered example_response)))
        (baseURL (example_Client\<lparr>baseURL := ''http://h/a%2Fb/''\<rparr>) @ apiVersionPath @ ''/'')
       = Inr escaped_base_URL
   \<and> EscapedPath escaped_base_URL = ''/a%2Fb/api/v1/''
   \<and> no_dot_segments ''/a%2Fb/api/v1/''
   \<and> buildFullURL (parses_as ''http://h/a%2Fb/api/v1/'' escaped_base_URL
                     (example_library (Delivered example_response)))
        (example_Client\<lparr>baseURL := ''http://h/a%2Fb/''\<rparr>) ''repos/my space/branches''
       = Inr ''http://h/a%2Fb/api/v1/repos/my%20space/branches''"
proof -
  let ?L = "example_library (Delivered example_response)"
  let ?L' = "parses_as ''http://h/a%2Fb/api/v1/'' escaped_base_URL ?L"
  let ?c' = "example_Client\<lparr>baseURL := ''http://h/a%2Fb/''\<rparr>"
  have nd: "no_dot_segments ''repos/my space/branches''" "no_dot_segments ''/api/v1/''"
    "no_dot_segments ''/a%2Fb/api/v1/''"
    by (simp_all add: no_dot_segments_def)
  have e: "escape ''repos/my space/branches'' encodePath = ''repos/my%20space/branches''"
    by code_simp
  have p: "url_Parse ?L (baseURL example_Client @ apiVersionPath @ ''/'') = Inr gitness_api_URL"
    by (simp add: example_Client_default defaultBaseURL_def apiVersionPath_def example_parse)
  have p': "url_Parse ?L' (baseURL ?c' @ apiVersionPath @ ''/'') = Inr escaped_base_URL"
    by (simp add: parses_as_def apiVersionPath_def)
  have E': "EscapedPath escaped_base_URL = ''/a%2Fb/api/v1/''"
    by code_simp
  have S': "URL_String escaped_base_URL = ''http://h/a%2Fb/api/v1/''"
    by code_simp
  have f': "Opaque escaped_base_URL = []" "\<not> OmitHost escaped_base_URL"
    "\<not> ForceQuery escaped_base_URL" "RawQuery escaped_base_URL = []"
    "Fragment escaped_base_URL = []"
    by (simp_all add: escaped_base_URL_def)
  show ?thesis
    using nd e p p' E' S' f' example_parse[of "Delivered example_response"] example_Client_default
      buildFullURL_joins[of ?L example_Client gitness_api_URL "''repos/my space/branches''"]
      buildFullURL_joins[of ?L' ?c' escaped_base_URL "''repos/my space/branches''"]
    by (simp add: gitness_api_URL_fields gitness_api_URL_String gitness_api_URL_EscapedPath)
qed

text \<open>
  As first stated, the claim is about every path. A \<open>..\<close> segment, here from the
  repository path \<open>..\<close> given to \<open>ListBranches\<close>, is resolved away with the segment before
  it: the URL is not the base followed by the path.
\<close>

theorem buildFullURL_dot_segment_counterexample:
  "buildFullURL (example_library (Delivered example_response)) example_Client
     (ListBranches_path ''..'')
     = Inr ''https://gitness.com/api/v1/branches''
   \<and> ''https://gitness.com/api/v1/'' @ escape (ListBranches_path ''..'') encodePath
     = ''https://gitness.com/api/v1/repos/../branches''
   \<and> buildFullURL (example_library (Delivered example_response)) example_Client
     (ListBranches_path ''..'')
     \<noteq> Inr (''https://gitness.com/api/v1/'' @ escape (ListBranches_path ''..'') encodePath)
   \<and> buildFullURL (example_library (Delivered example_response)) example_Client
     (ListBranches_path ''..'')
     \<noteq> Inr (''https://gitness.com/api/v1/'' @ ListBranches_path ''..'')"
proof -
  have built: "buildFullURL (example_library (Delivered example_response)) example_Client
     (ListBranches_path ''..'')
     = Inr ''https://gitness.com/api/v1/branches''"
    unfolding example_buildFullURL by code_simp
  have claimed: "''https://gitness.com/api/v1/'' @ escape (ListBranches_path ''..'') encodePath
     = ''https://gitness.com/api/v1/repos/../branches''"
    by code_simp
  show ?thesis
    unfolding built claimed by (simp add: ListBranches_path_def)
qed

text \<open>
  The other conditions are needed as well. A path with a leading slash replaces the path
  of the base. And for a base of the form \<open>scheme:/path\<close> the resolved URL is written with
  an empty authority, which the base does not have.
\<close>

lemma buildFullURL_conditions_needed:
  "buildFullURL (example_library a) example_Client ''/users'' = Inr ''https://gitness.com/users''
   \<and> URL_String omitted_host_URL = ''foo:/api/v1/''
   \<and> buildFullURL (parses_as ''foo:/api/v1/'' omitted_host_URL (example_library a))
        (example_Client\<lparr>baseURL := ''foo:/''\<rparr>) ''users''
       = Inr ''foo:///api/v1/users''"
proof -
  have 1: "buildFullURL (example_library a) example_Client ''/users''
             = Inr ''https://gitness.com/users''"
    unfolding example_buildFullURL by code_simp
  have 2: "URL_String omitted_host_URL = ''foo:/api/v1/''"
    by code_simp
  have "URL_String (ResolveReference omitted_host_URL (URL_of_Path ''users''))
          = ''foo:///api/v1/users''"
    by code_simp
  then have 3: "buildFullURL (parses_as ''foo:/api/v1/'' omitted_host_URL (example_library a))
        (example_Client\<lparr>baseURL := ''foo:/''\<rparr>) ''users''
       = Inr ''foo:///api/v1/users''"
    by (simp add: buildFullURL_def parses_as_def apiVersionPath_def)
  show ?thesis
    using 1 2 3 by simp
qed

end
